theory Spec2Isabelle
  imports Complex_Main "HOL-Library.Multiset"
begin

section \<open>Floating-point values\<close>

text \<open>
  The indicator engine of \<^verbatim>\<open>technical_analysis.py\<close> computes on pandas columns of
  dtype \<^verbatim>\<open>float64\<close>.  A value of such a column is modelled by \<open>fval\<close>: a finite
  number, one of the two infinities, or \<open>NaN\<close>, which pandas uses as the marker of a
  missing value.  Finite values are exact reals: rounding and the sign of zero are
  not modelled.  The special values follow IEEE 754: \<open>NaN\<close> propagates through
  arithmetic and every comparison with \<open>NaN\<close> is false.
\<close>

datatype fval = Fin real | PInf | NInf | NaN

fun fneg :: "fval \<Rightarrow> fval" where
  "fneg (Fin x) = Fin (- x)"
| "fneg PInf = NInf"
| "fneg NInf = PInf"
| "fneg NaN = NaN"

fun fabs :: "fval \<Rightarrow> fval" where
  "fabs (Fin x) = Fin \<bar>x\<bar>"
| "fabs PInf = PInf"
| "fabs NInf = PInf"
| "fabs NaN = NaN"

fun fadd :: "fval \<Rightarrow> fval \<Rightarrow> fval" where
  "fadd NaN b = NaN"
| "fadd a NaN = NaN"
| "fadd (Fin x) (Fin y) = Fin (x + y)"
| "fadd (Fin x) b = b"
| "fadd a (Fin y) = a"
| "fadd PInf PInf = PInf"
| "fadd NInf NInf = NInf"
| "fadd PInf NInf = NaN"
| "fadd NInf PInf = NaN"

definition fsub :: "fval \<Rightarrow> fval \<Rightarrow> fval" where
  "fsub a b = fadd a (fneg b)"

text \<open>The sign of a non-\<open>NaN\<close> value: \<open>-1\<close>, \<open>0\<close> or \<open>1\<close>.\<close>

fun fsgn :: "fval \<Rightarrow> int" where
  "fsgn (Fin x) = (if x < 0 then - 1 else if x = 0 then 0 else 1)"
| "fsgn PInf = 1"
| "fsgn NInf = - 1"
| "fsgn NaN = 0"

definition inf_of_sign :: "int \<Rightarrow> fval" where
  "inf_of_sign s = (if s = 0 then NaN else if 0 < s then PInf else NInf)"

fun fmul :: "fval \<Rightarrow> fval \<Rightarrow> fval" where
  "fmul NaN b = NaN"
| "fmul a NaN = NaN"
| "fmul (Fin x) (Fin y) = Fin (x * y)"
| "fmul a b = inf_of_sign (fsgn a * fsgn b)"

text \<open>
  Division of floats never raises in numpy: a non-zero number over zero is an
  infinity, zero over zero is \<open>NaN\<close>.  (Zero is taken as positive zero.)
\<close>

fun fdiv :: "fval \<Rightarrow> fval \<Rightarrow> fval" where
  "fdiv NaN b = NaN"
| "fdiv a NaN = NaN"
| "fdiv (Fin x) (Fin y) = (if y = 0 then inf_of_sign (fsgn (Fin x)) else Fin (x / y))"
| "fdiv (Fin x) b = Fin 0"
| "fdiv a (Fin y) = (if y < 0 then fneg a else a)"
| "fdiv a b = NaN"

fun flt :: "fval \<Rightarrow> fval \<Rightarrow> bool" where
  "flt NaN b = False"
| "flt a NaN = False"
| "flt (Fin x) (Fin y) = (x < y)"
| "flt a PInf = (a \<noteq> PInf)"
| "flt NInf b = (b \<noteq> NInf)"
| "flt a b = False"

definition fgt :: "fval \<Rightarrow> fval \<Rightarrow> bool" where
  "fgt a b = flt b a"

definition fle :: "fval \<Rightarrow> fval \<Rightarrow> bool" where
  "fle a b = (a \<noteq> NaN \<and> b \<noteq> NaN \<and> (a = b \<or> flt a b))"

definition fsum :: "fval list \<Rightarrow> fval" where
  "fsum xs = foldl fadd (Fin 0) xs"

text \<open>Maximum and minimum that skip \<open>NaN\<close>, as the pandas reductions do.\<close>

definition nanmax :: "fval \<Rightarrow> fval \<Rightarrow> fval" where
  "nanmax a b = (if a = NaN then b else if b = NaN then a else if flt a b then b else a)"

definition nanmin :: "fval \<Rightarrow> fval \<Rightarrow> fval" where
  "nanmin a b = (if a = NaN then b else if b = NaN then a else if flt b a then b else a)"

section \<open>Series operations\<close>

text \<open>
  A pandas \<^verbatim>\<open>Series\<close> over the frame's index is a list of values by position.
  \<^verbatim>\<open>diff()\<close> and \<^verbatim>\<open>shift()\<close> have no predecessor at position 0 and give \<open>NaN\<close> there.
\<close>

definition shift :: "fval list \<Rightarrow> fval list" where
  "shift xs = (if xs = [] then [] else NaN # butlast xs)"

definition diff :: "fval list \<Rightarrow> fval list" where
  "diff xs = map2 fsub xs (shift xs)"

text \<open>\<^verbatim>\<open>s.where(cond, other)\<close> keeps the value where the condition holds.\<close>

definition where_s :: "fval list \<Rightarrow> bool list \<Rightarrow> fval \<Rightarrow> fval list" where
  "where_s xs cond other = map2 (\<lambda>x c. if c then x else other) xs cond"

text \<open>\<^verbatim>\<open>s[mask] = v\<close> overwrites the value where the mask holds.\<close>

definition mask_set :: "fval list \<Rightarrow> bool list \<Rightarrow> fval \<Rightarrow> fval list" where
  "mask_set xs msk v = map2 (\<lambda>x m. if m then v else x) xs msk"

text \<open>
  \<^verbatim>\<open>rolling(window=p)\<close>: the window at position \<open>i\<close> holds the positions
  \<open>i-p+1 .. i\<close> that exist.  \<^verbatim>\<open>min_periods\<close> defaults to the window size, so an
  aggregate is \<open>NaN\<close> unless the window holds \<open>p\<close> values none of which is \<open>NaN\<close>.
  A window of size 0 has no observation and gives \<open>NaN\<close>.  The aggregate of a window
  is computed from its values; pandas updates running sums, which is the same on
  finite values in exact arithmetic.
\<close>

definition window :: "nat \<Rightarrow> nat \<Rightarrow> fval list \<Rightarrow> fval list" where
  "window p i xs = drop (Suc i - p) (take (Suc i) xs)"

definition full_window :: "nat \<Rightarrow> fval list \<Rightarrow> bool" where
  "full_window p w = (0 < p \<and> length w = p \<and> NaN \<notin> set w)"

definition rolling :: "nat \<Rightarrow> (fval list \<Rightarrow> fval) \<Rightarrow> fval list \<Rightarrow> fval list" where
  "rolling p agg xs =
     map (\<lambda>i. let w = window p i xs in if full_window p w then agg w else NaN) [0..<length xs]"

definition mean :: "fval list \<Rightarrow> fval" where
  "mean w = fdiv (fsum w) (Fin (real (length w)))"

definition rolling_mean :: "nat \<Rightarrow> fval list \<Rightarrow> fval list" where
  "rolling_mean p xs = rolling p mean xs"

text \<open>
  The sample standard deviation (\<^verbatim>\<open>ddof=1\<close>) of a window; it needs two observations.
\<close>

fun fsqrt :: "fval \<Rightarrow> fval" where
  "fsqrt (Fin x) = (if x < 0 then NaN else Fin (sqrt x))"
| "fsqrt PInf = PInf"
| "fsqrt NInf = NaN"
| "fsqrt NaN = NaN"

definition std :: "fval list \<Rightarrow> fval" where
  "std w =
     (if length w \<le> 1 then NaN
      else fsqrt (fdiv (fsum (map (\<lambda>x. fmul (fsub x (mean w)) (fsub x (mean w))) w))
                       (Fin (real (length w - 1)))))"

definition rolling_std :: "nat \<Rightarrow> fval list \<Rightarrow> fval list" where
  "rolling_std p xs = rolling p std xs"

definition rolling_min :: "nat \<Rightarrow> fval list \<Rightarrow> fval list" where
  "rolling_min p xs = rolling p (\<lambda>w. foldl nanmin NaN w) xs"

definition rolling_max :: "nat \<Rightarrow> fval list \<Rightarrow> fval list" where
  "rolling_max p xs = rolling p (\<lambda>w. foldl nanmax NaN w) xs"

text \<open>
  \<^verbatim>\<open>ewm(alpha, adjust=False).mean()\<close>, following the loop of pandas 2: \<open>weighted\<close> is the
  running average and \<open>old_wt\<close> the weight of the past.  Until the first observation
  the average is \<open>NaN\<close>; a later \<open>NaN\<close> repeats the average and ages the past by
  one more step.
\<close>

fun ewm_loop :: "real \<Rightarrow> fval \<Rightarrow> real \<Rightarrow> fval list \<Rightarrow> fval list" where
  "ewm_loop \<alpha> weighted old_wt [] = []"
| "ewm_loop \<alpha> weighted old_wt (cur # rest) =
     (if weighted \<noteq> NaN then
        (if cur \<noteq> NaN then
           (let w' = (if weighted \<noteq> cur
                      then fdiv (fadd (fmul (Fin (old_wt * (1 - \<alpha>))) weighted) (fmul (Fin \<alpha>) cur))
                                (Fin (old_wt * (1 - \<alpha>) + \<alpha>))
                      else weighted)
            in w' # ewm_loop \<alpha> w' 1 rest)
         else weighted # ewm_loop \<alpha> weighted (old_wt * (1 - \<alpha>)) rest)
      else if cur \<noteq> NaN then cur # ewm_loop \<alpha> cur old_wt rest
      else weighted # ewm_loop \<alpha> weighted old_wt rest)"

fun ewm_mean :: "real \<Rightarrow> fval list \<Rightarrow> fval list" where
  "ewm_mean \<alpha> [] = []"
| "ewm_mean \<alpha> (x # xs) = x # ewm_loop \<alpha> x 1 xs"

section \<open>The data frame\<close>

datatype error = KeyError | IndexError | ValueError | DateParseError

text \<open>
  One row of the frame held by a \<^verbatim>\<open>TechnicalAnalysis\<close> object.  The timestamp is
  \<open>None\<close> for pandas' \<^verbatim>\<open>NaT\<close>.
\<close>

record candle =
  datetime :: "int option"
  opn :: fval
  high :: fval
  low :: fval
  close :: fval
  vol :: fval

text \<open>
  \<open>NoColumns\<close> is \<^verbatim>\<open>pd.DataFrame()\<close>, a frame without rows and without columns, where
  \<^verbatim>\<open>self.data['close']\<close> raises \<^verbatim>\<open>KeyError\<close>.  \<open>Table\<close> is a frame with the six
  columns; each row carries its index label.  A table may have no rows.
\<close>

datatype dataframe = NoColumns | Table "(nat \<times> candle) list"

fun df_empty :: "dataframe \<Rightarrow> bool" where
  "df_empty NoColumns = True"
| "df_empty (Table rows) = (rows = [])"

fun df_len :: "dataframe \<Rightarrow> nat" where
  "df_len NoColumns = 0"
| "df_len (Table rows) = length rows"

definition column :: "(candle \<Rightarrow> 'a) \<Rightarrow> (nat \<times> candle) list \<Rightarrow> 'a list" where
  "column f rows = map (\<lambda>r. f (snd r)) rows"

definition iloc_first :: "'a list \<Rightarrow> error + 'a" where
  "iloc_first xs = (case xs of [] \<Rightarrow> Inl IndexError | x # _ \<Rightarrow> Inr x)"

definition iloc_last :: "'a list \<Rightarrow> error + 'a" where
  "iloc_last xs = (if xs = [] then Inl IndexError else Inr (last xs))"

definition bind :: "error + 'a \<Rightarrow> ('a \<Rightarrow> error + 'b) \<Rightarrow> error + 'b" where
  "bind m f = (case m of Inl e \<Rightarrow> Inl e | Inr x \<Rightarrow> f x)"

section \<open>The series normalizer\<close>

text \<open>
  The constructor receives \<^verbatim>\<open>kline_data\<close>, a list of records whose fields are still
  raw.  \<^verbatim>\<open>pd.to_datetime\<close> turns a missing timestamp into \<^verbatim>\<open>NaT\<close> and raises on a
  value it cannot parse; \<^verbatim>\<open>pd.to_numeric(errors='coerce')\<close> turns a value that is
  not a number into \<open>NaN\<close>.  The numeric columns are taken to be float64, as the
  comment in \<^verbatim>\<open>_process_dataframe\<close> says; a column that pandas keeps as int64 is
  not modelled.
\<close>

datatype raw_time = TimeValue int | TimeMissing | TimeUnparseable

datatype raw_num = Numeric real | NonNumeric

record raw_candle =
  raw_datetime :: raw_time
  raw_open :: raw_num
  raw_high :: raw_num
  raw_low :: raw_num
  raw_close :: raw_num
  raw_vol :: raw_num

fun to_datetime :: "raw_time list \<Rightarrow> error + int option list" where
  "to_datetime [] = Inr []"
| "to_datetime (TimeUnparseable # ts) = Inl DateParseError"
| "to_datetime (TimeMissing # ts) = bind (to_datetime ts) (\<lambda>r. Inr (None # r))"
| "to_datetime (TimeValue t # ts) = bind (to_datetime ts) (\<lambda>r. Inr (Some t # r))"

fun to_numeric :: "raw_num \<Rightarrow> fval" where
  "to_numeric (Numeric x) = Fin x"
| "to_numeric NonNumeric = NaN"

text \<open>
  The order of \<^verbatim>\<open>sort_values\<close>: ascending, with \<^verbatim>\<open>NaT\<close> last.  \<open>ts_lt\<close> is its strict
  part.
\<close>

fun ts_le :: "int option \<Rightarrow> int option \<Rightarrow> bool" where
  "ts_le a None = True"
| "ts_le None (Some y) = False"
| "ts_le (Some x) (Some y) = (x \<le> y)"

fun ts_lt :: "int option \<Rightarrow> int option \<Rightarrow> bool" where
  "ts_lt (Some x) (Some y) = (x < y)"
| "ts_lt (Some x) None = True"
| "ts_lt None b = False"

text \<open>
  \<^verbatim>\<open>sort_values\<close> permutes the rows together with their index labels.  Rows with
  equal keys are kept in their order here; pandas leaves their order to numpy.
\<close>

fun insert_row :: "('r \<Rightarrow> int option) \<Rightarrow> nat \<times> 'r \<Rightarrow> (nat \<times> 'r) list \<Rightarrow> (nat \<times> 'r) list" where
  "insert_row key r [] = [r]"
| "insert_row key r (x # xs) =
     (if ts_lt (key (snd x)) (key (snd r)) then x # insert_row key r xs else r # x # xs)"

fun sort_values :: "('r \<Rightarrow> int option) \<Rightarrow> (nat \<times> 'r) list \<Rightarrow> (nat \<times> 'r) list" where
  "sort_values key [] = []"
| "sort_values key (r # rs) = insert_row key r (sort_values key rs)"

text \<open>\<^verbatim>\<open>reset_index(drop=True)\<close> replaces the labels by the positions.\<close>

definition reset_index :: "(nat \<times> 'r) list \<Rightarrow> (nat \<times> 'r) list" where
  "reset_index rows = zip [0..<length rows] (map snd rows)"

text \<open>\<^verbatim>\<open>pd.DataFrame(kline_data)\<close>: the rows are labelled by their position in the list.\<close>

definition DataFrame :: "'r list \<Rightarrow> (nat \<times> 'r) list" where
  "DataFrame records = zip [0..<length records] records"

definition coerce_row :: "int option \<times> raw_candle \<Rightarrow> candle" where
  "coerce_row r =
     \<lparr>datetime = fst r,
      opn = to_numeric (raw_open (snd r)),
      high = to_numeric (raw_high (snd r)),
      low = to_numeric (raw_low (snd r)),
      close = to_numeric (raw_close (snd r)),
      vol = to_numeric (raw_vol (snd r))\<rparr>"

text \<open>
  \<^verbatim>\<open>_process_dataframe\<close>, applied by the constructor to \<^verbatim>\<open>pd.DataFrame(kline_data)\<close>.
  An empty list gives the frame without columns, which is left as it is.
\<close>

definition process_dataframe :: "raw_candle list \<Rightarrow> error + dataframe" where
  "process_dataframe kline_data =
     (let data = DataFrame kline_data in
      if data = [] then Inr NoColumns
      else bind (to_datetime (map (\<lambda>r. raw_datetime (snd r)) data)) (\<lambda>ts.
        let data = map2 (\<lambda>r t. (fst r, (t, snd r))) data ts;
            data = reset_index (sort_values fst data)
        in Inr (Table (map (\<lambda>r. (fst r, coerce_row (snd r))) data))))"

text \<open>
  \<^verbatim>\<open>TechnicalAnalysis.from_api\<close>: the frame comes from \<^verbatim>\<open>get_okx_candles\<close>, which
  returns a frame or \<^verbatim>\<open>None\<close>; on \<^verbatim>\<open>None\<close> the object keeps \<^verbatim>\<open>pd.DataFrame()\<close>.
  The retrieval is a parameter \<open>fetch\<close>.
\<close>

definition from_api :: "(string \<Rightarrow> dataframe option) \<Rightarrow> string \<Rightarrow> dataframe" where
  "from_api fetch inst_id = (case fetch inst_id of None \<Rightarrow> NoColumns | Some df \<Rightarrow> df)"

section \<open>The indicator library\<close>

text \<open>
  Each method reads columns of \<^verbatim>\<open>self.data\<close>, here the argument \<open>d\<close>.  Window sizes
  are natural numbers.
\<close>

fun calculate_ma :: "dataframe \<Rightarrow> nat \<Rightarrow> error + fval list" where
  "calculate_ma NoColumns period = Inl KeyError"
| "calculate_ma (Table rows) period = Inr (rolling_mean period (column close rows))"

text \<open>
  \<^verbatim>\<open>ewm(span=s)\<close> raises \<^verbatim>\<open>ValueError\<close> unless \<open>s \<ge> 1\<close>; its smoothing factor is
  \<open>2 / (s + 1)\<close>.  \<^verbatim>\<open>ewm(com=c)\<close> raises unless \<open>c \<ge> 0\<close>; its factor is \<open>1 / (1 + c)\<close>.
\<close>

definition ewm_span :: "nat \<Rightarrow> fval list \<Rightarrow> error + fval list" where
  "ewm_span s xs = (if s < 1 then Inl ValueError else Inr (ewm_mean (2 / (real s + 1)) xs))"

definition ewm_com :: "int \<Rightarrow> fval list \<Rightarrow> error + fval list" where
  "ewm_com c xs = (if c < 0 then Inl ValueError else Inr (ewm_mean (1 / (1 + real_of_int c)) xs))"

fun calculate_ema :: "dataframe \<Rightarrow> nat \<Rightarrow> error + fval list" where
  "calculate_ema NoColumns period = Inl KeyError"
| "calculate_ema (Table rows) period = ewm_span period (column close rows)"

text \<open>
  The directional movement of \<^verbatim>\<open>calculate_dmi\<close>.  The four assignments through a
  mask run in the order of the source: the last one compares with the \<open>plus_dm\<close>
  that the third has already changed.
\<close>

definition directional_movement :: "fval list \<Rightarrow> fval list \<Rightarrow> fval list \<times> fval list" where
  "directional_movement highs lows =
     (let plus_dm = diff highs;
          minus_dm = map fneg (diff lows);
          plus_dm = mask_set plus_dm (map (\<lambda>x. flt x (Fin 0)) plus_dm) (Fin 0);
          minus_dm = mask_set minus_dm (map (\<lambda>x. flt x (Fin 0)) minus_dm) (Fin 0);
          plus_dm = mask_set plus_dm (map2 fle plus_dm minus_dm) (Fin 0);
          minus_dm = mask_set minus_dm (map2 fle minus_dm plus_dm) (Fin 0)
      in (plus_dm, minus_dm))"

text \<open>
  The true range: the row-wise maximum of three columns, which skips \<open>NaN\<close>.
\<close>

definition true_range :: "fval list \<Rightarrow> fval list \<Rightarrow> fval list \<Rightarrow> fval list" where
  "true_range highs lows closes =
     (let tr1 = map2 fsub highs lows;
          tr2 = map fabs (map2 fsub highs (shift closes));
          tr3 = map fabs (map2 fsub lows (shift closes))
      in map2 nanmax (map2 nanmax tr1 tr2) tr3)"

fun calculate_dmi :: "dataframe \<Rightarrow> nat \<Rightarrow> error + fval list \<times> fval list \<times> fval list" where
  "calculate_dmi NoColumns period = Inl KeyError"
| "calculate_dmi (Table rows) period =
     (let highs = column high rows; lows = column low rows; closes = column close rows;
          (plus_dm, minus_dm) = directional_movement highs lows;
          tr = true_range highs lows closes;
          atr = rolling_mean period tr;
          plus_di = map2 fdiv (map (fmul (Fin 100)) (rolling_mean period plus_dm)) atr;
          minus_di = map2 fdiv (map (fmul (Fin 100)) (rolling_mean period minus_dm)) atr;
          dx = map2 fdiv (map (fmul (Fin 100)) (map fabs (map2 fsub plus_di minus_di)))
                         (map2 fadd plus_di minus_di);
          adx = rolling_mean period dx
      in Inr (plus_di, minus_di, adx))"

text \<open>The averages of \<^verbatim>\<open>calculate_rsi\<close> and the index itself.\<close>

definition rsi_gain :: "fval list \<Rightarrow> fval list" where
  "rsi_gain closes = (let delta = diff closes in where_s delta (map (\<lambda>x. fgt x (Fin 0)) delta) (Fin 0))"

definition rsi_loss :: "fval list \<Rightarrow> fval list" where
  "rsi_loss closes =
     (let delta = diff closes in map fneg (where_s delta (map (\<lambda>x. flt x (Fin 0)) delta) (Fin 0)))"

definition rsi_of :: "nat \<Rightarrow> fval list \<Rightarrow> fval list" where
  "rsi_of period closes =
     (let avg_gain = rolling_mean period (rsi_gain closes);
          avg_loss = rolling_mean period (rsi_loss closes);
          rs = map2 fdiv avg_gain avg_loss
      in map (\<lambda>r. fsub (Fin 100) (fdiv (Fin 100) (fadd (Fin 1) r))) rs)"

fun calculate_rsi :: "dataframe \<Rightarrow> nat \<Rightarrow> error + fval list" where
  "calculate_rsi NoColumns period = Inl KeyError"
| "calculate_rsi (Table rows) period = Inr (rsi_of period (column close rows))"

fun calculate_macd ::
  "dataframe \<Rightarrow> nat \<Rightarrow> nat \<Rightarrow> nat \<Rightarrow> error + fval list \<times> fval list \<times> fval list" where
  "calculate_macd NoColumns fast slow signal = Inl KeyError"
| "calculate_macd (Table rows) fast slow signal =
     bind (ewm_span fast (column close rows)) (\<lambda>exp1.
     bind (ewm_span slow (column close rows)) (\<lambda>exp2.
       let dif = map2 fsub exp1 exp2 in
       bind (ewm_span signal dif) (\<lambda>dea.
         Inr (dif, dea, map2 (\<lambda>a b. fmul (fsub a b) (Fin 2)) dif dea))))"

definition kdj_rsv :: "nat \<Rightarrow> fval list \<Rightarrow> fval list \<Rightarrow> fval list \<Rightarrow> fval list" where
  "kdj_rsv n highs lows closes =
     (let low_list = rolling_min n lows;
          high_list = rolling_max n highs
      in map2 (\<lambda>a b. fmul (fdiv a b) (Fin 100)) (map2 fsub closes low_list) (map2 fsub high_list low_list))"

fun calculate_kdj ::
  "dataframe \<Rightarrow> nat \<Rightarrow> nat \<Rightarrow> nat \<Rightarrow> error + fval list \<times> fval list \<times> fval list" where
  "calculate_kdj NoColumns n m1 m2 = Inl KeyError"
| "calculate_kdj (Table rows) n m1 m2 =
     (let rsv = kdj_rsv n (column high rows) (column low rows) (column close rows) in
      bind (ewm_com (int m1 - 1) rsv) (\<lambda>k.
      bind (ewm_com (int m2 - 1) k) (\<lambda>d.
        Inr (k, d, map2 (\<lambda>a b. fsub (fmul (Fin 3) a) (fmul (Fin 2) b)) k d))))"

fun calculate_bollinger_bands ::
  "dataframe \<Rightarrow> nat \<Rightarrow> int \<Rightarrow> error + fval list \<times> fval list \<times> fval list" where
  "calculate_bollinger_bands NoColumns period std_dev = Inl KeyError"
| "calculate_bollinger_bands (Table rows) period std_dev =
     (let middle = rolling_mean period (column close rows);
          sd = rolling_std period (column close rows);
          upper = map2 fadd middle (map (\<lambda>x. fmul x (Fin (real_of_int std_dev))) sd);
          lower = map2 fsub middle (map (\<lambda>x. fmul x (Fin (real_of_int std_dev))) sd)
      in Inr (upper, middle, lower))"

fun calculate_atr :: "dataframe \<Rightarrow> nat \<Rightarrow> error + fval list" where
  "calculate_atr NoColumns period = Inl KeyError"
| "calculate_atr (Table rows) period =
     Inr (rolling_mean period
            (true_range (column high rows) (column low rows) (column close rows)))"

text \<open>
  \<^verbatim>\<open>calculate_obv\<close> fills a series of \<open>NaN\<close> position by position.  Reading
  \<^verbatim>\<open>iloc[0]\<close> of a column without rows raises \<^verbatim>\<open>IndexError\<close>.  The loop adds and
  subtracts in float64, where a sum is rounded.  The two operations are the
  parameters \<open>add\<close> and \<open>sub\<close> of \<open>calculate_obv_with\<close>, so that what is proved for
  every \<open>add\<close> and \<open>sub\<close> holds for the rounding operations of the machine.
  \<open>calculate_obv\<close> is the loop with the arithmetic of \<open>fval\<close>.
\<close>

definition obv_step ::
  "(fval \<Rightarrow> fval \<Rightarrow> fval) \<Rightarrow> (fval \<Rightarrow> fval \<Rightarrow> fval) \<Rightarrow> fval list \<Rightarrow> fval list \<Rightarrow> nat
     \<Rightarrow> fval list \<Rightarrow> fval list" where
  "obv_step add sub closes vols i obv =
     (if fgt (closes ! i) (closes ! (i - 1)) then obv[i := add (obv ! (i - 1)) (vols ! i)]
      else if flt (closes ! i) (closes ! (i - 1)) then obv[i := sub (obv ! (i - 1)) (vols ! i)]
      else obv[i := obv ! (i - 1)])"

fun calculate_obv_with ::
  "(fval \<Rightarrow> fval \<Rightarrow> fval) \<Rightarrow> (fval \<Rightarrow> fval \<Rightarrow> fval) \<Rightarrow> dataframe \<Rightarrow> error + fval list" where
  "calculate_obv_with add sub NoColumns = Inl KeyError"
| "calculate_obv_with add sub (Table rows) =
     (let obv = replicate (length rows) NaN in
      bind (iloc_first (column vol rows)) (\<lambda>v0.
        Inr (fold (obv_step add sub (column close rows) (column vol rows)) [1..<length rows]
               (obv[0 := v0]))))"

definition calculate_obv :: "dataframe \<Rightarrow> error + fval list" where
  "calculate_obv d = calculate_obv_with fadd fsub d"

definition calculate_fibonacci_retracement :: "fval \<Rightarrow> fval \<Rightarrow> (string \<times> fval) list" where
  "calculate_fibonacci_retracement hi lo =
     (let d = fsub hi lo in
      [(''0.0'', hi),
       (''0.236'', fsub hi (fmul d (Fin 0.236))),
       (''0.382'', fsub hi (fmul d (Fin 0.382))),
       (''0.5'', fsub hi (fmul d (Fin 0.5))),
       (''0.618'', fsub hi (fmul d (Fin 0.618))),
       (''0.786'', fsub hi (fmul d (Fin 0.786))),
       (''1.0'', lo)])"

section \<open>The aggregator\<close>

text \<open>
  \<^verbatim>\<open>pct_change(periods=k)\<close> is \<open>x[i] / x[i-k] - 1\<close>, with no forward filling of
  missing values.
\<close>

definition shift_by :: "nat \<Rightarrow> fval list \<Rightarrow> fval list" where
  "shift_by k xs = replicate (min k (length xs)) NaN @ take (length xs - k) xs"

definition pct_change :: "nat \<Rightarrow> fval list \<Rightarrow> fval list" where
  "pct_change k xs = map2 (\<lambda>a b. fsub (fdiv a b) (Fin 1)) xs (shift_by k xs)"

datatype col = TimeCol "int option list" | NumCol "fval list"

definition times100 :: "fval list \<Rightarrow> fval list" where
  "times100 xs = map (\<lambda>x. fmul x (Fin 100)) xs"

text \<open>
  \<^verbatim>\<open>get_all_indicators\<close>: the table of all indicators, as the list of its named
  columns.  The guard returns \<^verbatim>\<open>pd.DataFrame()\<close>, the table without columns.
\<close>

definition get_all_indicators :: "dataframe \<Rightarrow> error + (string \<times> col) list" where
  "get_all_indicators d =
     (if df_empty d then Inr []
      else case d of NoColumns \<Rightarrow> Inl KeyError | Table rows \<Rightarrow>
        bind (calculate_ma d 5) (\<lambda>ma5.
        bind (calculate_ma d 10) (\<lambda>ma10.
        bind (calculate_ma d 20) (\<lambda>ma20.
        bind (calculate_ma d 50) (\<lambda>ma50.
        bind (calculate_ema d 12) (\<lambda>ema12.
        bind (calculate_ema d 26) (\<lambda>ema26.
        bind (calculate_rsi d 14) (\<lambda>rsi14.
        bind (calculate_rsi d 6) (\<lambda>rsi6.
        bind (calculate_macd d 12 26 9) (\<lambda>(dif, dea, macd_hist).
        bind (calculate_kdj d 9 3 3) (\<lambda>(k, dd, j).
        bind (calculate_dmi d 14) (\<lambda>(plus_di, minus_di, adx).
        bind (calculate_bollinger_bands d 20 2) (\<lambda>(bb_upper, bb_middle, bb_lower).
        bind (calculate_atr d 14) (\<lambda>atr14.
        bind (calculate_obv d) (\<lambda>obv.
          Inr [(''datetime'', TimeCol (column datetime rows)),
               (''open'', NumCol (column opn rows)),
               (''high'', NumCol (column high rows)),
               (''low'', NumCol (column low rows)),
               (''close'', NumCol (column close rows)),
               (''volume'', NumCol (column vol rows)),
               (''ma5'', NumCol ma5),
               (''ma10'', NumCol ma10),
               (''ma20'', NumCol ma20),
               (''ma50'', NumCol ma50),
               (''ema12'', NumCol ema12),
               (''ema26'', NumCol ema26),
               (''rsi14'', NumCol rsi14),
               (''rsi6'', NumCol rsi6),
               (''macd_dif'', NumCol dif),
               (''macd_dea'', NumCol dea),
               (''macd_hist'', NumCol macd_hist),
               (''kdj_k'', NumCol k),
               (''kdj_d'', NumCol dd),
               (''kdj_j'', NumCol j),
               (''dmi_plus_di'', NumCol plus_di),
               (''dmi_minus_di'', NumCol minus_di),
               (''dmi_adx'', NumCol adx),
               (''bb_upper'', NumCol bb_upper),
               (''bb_middle'', NumCol bb_middle),
               (''bb_lower'', NumCol bb_lower),
               (''bb_width'', NumCol (map2 fdiv (map2 fsub bb_upper bb_lower) bb_middle)),
               (''atr14'', NumCol atr14),
               (''obv'', NumCol obv),
               (''price_change_1'', NumCol (times100 (pct_change 1 (column close rows)))),
               (''price_change_5'', NumCol (times100 (pct_change 5 (column close rows)))),
               (''price_change_20'', NumCol (times100 (pct_change 20 (column close rows)))),
               (''volume_change'', NumCol (times100 (pct_change 1 (column vol rows)))),
               (''volume_sma20'', NumCol (rolling_mean 20 (column vol rows)))])))))))))))))))"

text \<open>
  The report of \<^verbatim>\<open>_analyze_single_asset\<close>.  An entry of the snapshot is \<open>None\<close> for
  Python's \<^verbatim>\<open>None\<close> and \<open>Some v\<close> for a float, which may be \<open>NaN\<close>.  A date is the
  ISO text of a timestamp, the text of \<^verbatim>\<open>NaT\<close>, or \<^verbatim>\<open>None\<close>.
\<close>

record snapshot =
  MA5 :: "fval option"
  MA20 :: "fval option"
  ADX :: "fval option"
  RSI :: "fval option"
  MACD_DIF :: "fval option"
  Fib_Levels :: "(string \<times> fval) list"
  Current_Price :: fval
  Price_Change :: fval

datatype isodate = IsoTime int | IsoNaT | IsoNone

fun isoformat :: "int option \<Rightarrow> isodate" where
  "isoformat (Some t) = IsoTime t"
| "isoformat None = IsoNaT"

record report =
  asset :: string
  indicators :: snapshot
  total_candles :: nat
  date_start :: isodate
  date_end :: isodate

definition series_max :: "fval list \<Rightarrow> fval" where
  "series_max xs = foldl nanmax NaN xs"

definition series_min :: "fval list \<Rightarrow> fval" where
  "series_min xs = foldl nanmin NaN xs"

definition analyze_single_asset :: "dataframe \<Rightarrow> string \<Rightarrow> error + report option" where
  "analyze_single_asset d name =
     (if df_empty d then Inr None
      else case d of NoColumns \<Rightarrow> Inl KeyError | Table rows \<Rightarrow>
        bind (if df_len d \<ge> 5
              then bind (calculate_ma d 5) (\<lambda>s. bind (iloc_last s) (\<lambda>v. Inr (Some v)))
              else Inr None) (\<lambda>ma5.
        bind (if df_len d \<ge> 20
              then bind (calculate_ma d 20) (\<lambda>s. bind (iloc_last s) (\<lambda>v. Inr (Some v)))
              else Inr None) (\<lambda>ma20.
        bind (calculate_dmi d 14) (\<lambda>(plus_di, minus_di, adx).
        bind (if adx \<noteq> [] then bind (iloc_last adx) (\<lambda>v. Inr (Some v)) else Inr None) (\<lambda>adx_last.
        bind (calculate_rsi d 14) (\<lambda>rsi.
        bind (if rsi \<noteq> [] then bind (iloc_last rsi) (\<lambda>v. Inr (Some v)) else Inr None) (\<lambda>rsi_last.
        bind (calculate_macd d 12 26 9) (\<lambda>(dif, dea, hist).
        bind (if dif \<noteq> [] then bind (iloc_last dif) (\<lambda>v. Inr (Some v)) else Inr None) (\<lambda>dif_last.
          let high_price = series_max (column high rows);
              low_price = series_min (column low rows)
          in
        bind (iloc_last (column close rows)) (\<lambda>current_price.
        bind (iloc_first (column close rows)) (\<lambda>first_price.
        bind (if length rows > 0 then bind (iloc_first (column datetime rows)) (\<lambda>t. Inr (isoformat t))
              else Inr IsoNone) (\<lambda>start.
        bind (if length rows > 0 then bind (iloc_last (column datetime rows)) (\<lambda>t. Inr (isoformat t))
              else Inr IsoNone) (\<lambda>stop.
          Inr (Some
            \<lparr>asset = name,
             indicators =
               \<lparr>MA5 = ma5, MA20 = ma20, ADX = adx_last, RSI = rsi_last, MACD_DIF = dif_last,
                Fib_Levels = calculate_fibonacci_retracement high_price low_price,
                Current_Price = current_price,
                Price_Change =
                  fmul (fdiv (fsub current_price first_price) first_price) (Fin 100)\<rparr>,
             total_candles = length rows,
             date_start = start,
             date_end = stop\<rparr>))))))))))))))"

section \<open>The batch orchestrator\<close>

text \<open>
  The result of a batch is a Python dictionary: an association list in insertion
  order, where storing under a key that is present replaces the value in place.
\<close>

fun dict_set :: "('k \<times> 'v) list \<Rightarrow> 'k \<Rightarrow> 'v \<Rightarrow> ('k \<times> 'v) list" where
  "dict_set [] k v = [(k, v)]"
| "dict_set ((k', v') # kvs) k v =
     (if k' = k then (k, v) # kvs else (k', v') # dict_set kvs k v)"

text \<open>
  The loop of \<^verbatim>\<open>analyze_all_assets\<close> over \<^verbatim>\<open>inst_ids\<close>.  An exception inside the
  loop would leave the function, so it ends the recursion with the error.
\<close>

fun analyze_loop ::
  "(string \<Rightarrow> dataframe option) \<Rightarrow> string list \<Rightarrow> (string \<times> report) list
     \<Rightarrow> error + (string \<times> report) list" where
  "analyze_loop fetch [] results = Inr results"
| "analyze_loop fetch (inst_id # rest) results =
     (let ta = from_api fetch inst_id in
      if df_empty ta then analyze_loop fetch rest results
      else bind (analyze_single_asset ta inst_id) (\<lambda>result.
        case result of
          None \<Rightarrow> analyze_loop fetch rest results
        | Some r \<Rightarrow> analyze_loop fetch rest (dict_set results inst_id r)))"

text \<open>
  \<^verbatim>\<open>analyze_all_assets\<close> called with \<^verbatim>\<open>inst_ids\<close> and no data file.  An empty list
  takes the last branch of the source and returns the empty dictionary.  Writing the
  result to a file is left to the persistence collaborator.
\<close>

definition analyze_all_assets ::
  "(string \<Rightarrow> dataframe option) \<Rightarrow> string list \<Rightarrow> error + (string \<times> report) list" where
  "analyze_all_assets fetch inst_ids =
     (if inst_ids \<noteq> [] then analyze_loop fetch inst_ids [] else Inr [])"

section \<open>Predicates used in the statements\<close>

text \<open>A value is finite when it is a number, and defined when it is not the missing marker.\<close>

fun is_fin :: "fval \<Rightarrow> bool" where
  "is_fin (Fin x) = True"
| "is_fin v = False"

definition all_missing :: "fval list \<Rightarrow> bool" where
  "all_missing xs = (\<forall>v\<in>set xs. v = NaN)"

text \<open>Position \<open>i\<close> is the first defined position of a derived series.\<close>

definition first_defined :: "fval list \<Rightarrow> nat \<Rightarrow> bool" where
  "first_defined xs i = (i < length xs \<and> xs ! i \<noteq> NaN \<and> all_missing (take i xs))"

text \<open>The value that one round of the loop of \<^verbatim>\<open>calculate_obv\<close> writes at position \<open>i\<close>.\<close>

definition obv_delta ::
  "(fval \<Rightarrow> fval \<Rightarrow> fval) \<Rightarrow> (fval \<Rightarrow> fval \<Rightarrow> fval) \<Rightarrow> fval list \<Rightarrow> fval list \<Rightarrow> nat
     \<Rightarrow> fval \<Rightarrow> fval" where
  "obv_delta add sub c v i prev =
     (if fgt (c ! i) (c ! (i - 1)) then add prev (v ! i)
      else if flt (c ! i) (c ! (i - 1)) then sub prev (v ! i)
      else prev)"

text \<open>The timestamp that \<^verbatim>\<open>pd.to_datetime\<close> gives for a raw value it accepts.\<close>

fun parse_time :: "raw_time \<Rightarrow> int option" where
  "parse_time (TimeValue t) = Some t"
| "parse_time TimeMissing = None"
| "parse_time TimeUnparseable = None"

text \<open>
  The keys of a dictionary after storing under the keys \<open>xs\<close> in turn, starting from
  the keys \<open>ks\<close>: a new key goes to the end, a key that is present keeps its place.
\<close>

fun fromkeys :: "'k list \<Rightarrow> 'k list \<Rightarrow> 'k list" where
  "fromkeys ks [] = ks"
| "fromkeys ks (x # xs) = fromkeys (if x \<in> set ks then ks else ks @ [x]) xs"

text \<open>
  The four assignments of \<open>directional_movement\<close> at one position, from the
  difference of the highs and the difference of the lows there.
\<close>

definition dm_point :: "fval \<Rightarrow> fval \<Rightarrow> fval \<times> fval" where
  "dm_point dh dl =
     (let plus_dm = dh;
          minus_dm = fneg dl;
          plus_dm = (if flt plus_dm (Fin 0) then Fin 0 else plus_dm);
          minus_dm = (if flt minus_dm (Fin 0) then Fin 0 else minus_dm);
          plus_dm = (if fle plus_dm minus_dm then Fin 0 else plus_dm);
          minus_dm = (if fle minus_dm plus_dm then Fin 0 else minus_dm)
      in (plus_dm, minus_dm))"

section \<open>Example data\<close>

text \<open>A candle with all fields present.\<close>

definition ohlcv :: "int \<Rightarrow> real \<Rightarrow> real \<Rightarrow> real \<Rightarrow> real \<Rightarrow> real \<Rightarrow> candle" where
  "ohlcv t op hi lo cl v =
     \<lparr>datetime = Some t, opn = Fin op, high = Fin hi, low = Fin lo, close = Fin cl, vol = Fin v\<rparr>"

text \<open>Candles whose four prices are all the given close, with volume 1, indexed by position.\<close>

definition flat_rows :: "real list \<Rightarrow> (nat \<times> candle) list" where
  "flat_rows cs = map (\<lambda>i. (i, ohlcv (int i) (cs ! i) (cs ! i) (cs ! i) (cs ! i) 1)) [0..<length cs]"

section \<open>Facts about the series operations\<close>

lemma is_fin_iff: "is_fin v \<longleftrightarrow> (\<exists>x. v = Fin x)"
  by (cases v) auto

lemma length_rolling [simp]: "length (rolling p agg xs) = length xs"
  by (simp add: rolling_def)

lemma length_window: "i < length xs \<Longrightarrow> length (window p i xs) = min p (Suc i)"
  by (simp add: window_def)

lemma set_window: "set (window p i xs) \<subseteq> set xs"
  unfolding window_def by (meson set_drop_subset set_take_subset subset_trans)

lemma rolling_nth:
  "i < length xs \<Longrightarrow>
   rolling p agg xs ! i = (if full_window p (window p i xs) then agg (window p i xs) else NaN)"
  by (simp add: rolling_def Let_def)

lemma rolling_before: "i < length xs \<Longrightarrow> Suc i < p \<Longrightarrow> rolling p agg xs ! i = NaN"
  by (simp add: rolling_nth full_window_def length_window)

lemma rolling_short: "length xs < p \<Longrightarrow> rolling p agg xs = replicate (length xs) NaN"
  by (rule nth_equalityI) (simp_all add: rolling_before)

lemma window_first: "0 < p \<Longrightarrow> window p (p - 1) xs = take p xs"
  by (simp add: window_def)

lemma foldl_fadd_fin: "foldl fadd (Fin a) (map Fin rs) = Fin (a + sum_list rs)"
  by (induction rs arbitrary: a) (simp_all add: add.assoc)

lemma fsum_map_Fin: "fsum (map Fin rs) = Fin (sum_list rs)"
  by (simp add: fsum_def foldl_fadd_fin)

lemma all_fin_map: "\<forall>x\<in>set w. is_fin x \<Longrightarrow> \<exists>rs. w = map Fin rs"
proof (induction w)
  case Nil
  then show ?case by simp
next
  case (Cons a w)
  then obtain rs where "w = map Fin rs" by auto
  moreover from Cons.prems obtain r where "a = Fin r" by (auto simp: is_fin_iff)
  ultimately have "a # w = map Fin (r # rs)" by simp
  then show ?case by (rule exI [of _ "r # rs"])
qed

lemma mean_map_Fin: "rs \<noteq> [] \<Longrightarrow> mean (map Fin rs) = Fin (sum_list rs / real (length rs))"
  by (simp add: mean_def fsum_map_Fin)

lemma std_map_Fin: "2 \<le> length rs \<Longrightarrow> is_fin (std (map Fin rs))"
proof -
  assume len: "2 \<le> length rs"
  then have ne: "rs \<noteq> []" by auto
  define m where "m = sum_list rs / real (length rs)"
  have sq: "map (\<lambda>x. fmul (fsub x (mean (map Fin rs))) (fsub x (mean (map Fin rs)))) (map Fin rs)
            = map Fin (map (\<lambda>r. (r - m) * (r - m)) rs)"
    using ne by (simp add: mean_map_Fin fsub_def m_def)
  have nn: "0 \<le> sum_list (map (\<lambda>r. (r - m) * (r - m)) rs)"
    by (rule sum_list_nonneg) auto
  have "real (length rs - 1) > 0" using len by simp
  with nn have "0 \<le> sum_list (map (\<lambda>r. (r - m) * (r - m)) rs) / real (length rs - 1)"
    by simp
  with len show ?thesis
    unfolding std_def sq fsum_map_Fin by (simp del: of_nat_diff)
qed

lemmas fval_defs = fsub_def fgt_def fle_def inf_of_sign_def nanmax_def nanmin_def

lemmas series_defs = fval_defs shift_def diff_def where_s_def mask_set_def window_def
  full_window_def rolling_def mean_def rolling_mean_def std_def rolling_std_def
  rolling_min_def rolling_max_def fsum_def column_def Let_def

lemma all_missing_replicate: "all_missing (replicate n NaN)"
  by (simp add: all_missing_def)

lemma rolling_prefix_missing: "all_missing (take (p - 1) (rolling p agg xs))"
  unfolding all_missing_def
proof
  fix v assume "v \<in> set (take (p - 1) (rolling p agg xs))"
  then obtain i where i: "i < length (take (p - 1) (rolling p agg xs))"
    and v: "v = take (p - 1) (rolling p agg xs) ! i"
    by (metis in_set_conv_nth)
  from i have "i < length xs" "Suc i < p" by auto
  with v show "v = NaN" by (simp add: rolling_before)
qed

lemma rolling_first:
  assumes "0 < p" "p \<le> length xs" "list_all is_fin (take p xs)"
  shows "rolling p agg xs ! (p - 1) = agg (take p xs)"
proof -
  have fw: "full_window p (take p xs)"
    using assms by (auto simp: full_window_def list_all_iff)
  have w: "window p (p - 1) xs = take p xs"
    using assms(1) by (rule window_first)
  have "p - 1 < length xs" using assms by simp
  then have "rolling p agg xs ! (p - 1) =
      (if full_window p (window p (p - 1) xs) then agg (window p (p - 1) xs) else NaN)"
    by (rule rolling_nth)
  then show ?thesis unfolding w using fw by simp
qed

lemma mean_fin: "w \<noteq> [] \<Longrightarrow> list_all is_fin w \<Longrightarrow> is_fin (mean w)"
proof -
  assume ne: "w \<noteq> []" and "list_all is_fin w"
  then obtain rs where w: "w = map Fin rs"
    using all_fin_map [of w] by (auto simp: list_all_iff)
  with ne have "rs \<noteq> []" by auto
  then show ?thesis unfolding w by (simp add: mean_map_Fin)
qed

lemma std_fin: "2 \<le> length w \<Longrightarrow> list_all is_fin w \<Longrightarrow> is_fin (std w)"
  using all_fin_map [of w] std_map_Fin by (auto simp: list_all_iff)

lemma first_defined_rolling:
  assumes "0 < p" "p \<le> length xs" "list_all is_fin (take p xs)" "is_fin (agg (take p xs))"
  shows "first_defined (rolling p agg xs) (p - 1)"
proof -
  have "rolling p agg xs ! (p - 1) \<noteq> NaN"
    using assms(4) rolling_first [OF assms(1-3), of agg] by auto
  moreover have "p - 1 < length (rolling p agg xs)" using assms by simp
  ultimately show ?thesis
    unfolding first_defined_def using rolling_prefix_missing [of p agg xs] by blast
qed

lemma is_fin_fadd: "is_fin a \<Longrightarrow> is_fin b \<Longrightarrow> is_fin (fadd a b)"
  by (auto simp: is_fin_iff)
lemma is_fin_fsub: "is_fin a \<Longrightarrow> is_fin b \<Longrightarrow> is_fin (fsub a b)"
  by (auto simp: is_fin_iff fsub_def)
lemma is_fin_fmul: "is_fin a \<Longrightarrow> is_fin b \<Longrightarrow> is_fin (fmul a b)"
  by (auto simp: is_fin_iff)

lemma first_defined_band:
  assumes m: "first_defined ms i" and s: "first_defined ss i" and len: "length ms = length ss"
    and fm: "is_fin (ms ! i)" and fs: "is_fin (ss ! i)"
    and f: "\<And>a b. is_fin a \<Longrightarrow> is_fin b \<Longrightarrow> is_fin (f a (fmul b (Fin k)))"
    and n: "\<And>b. f NaN b = NaN"
  shows "first_defined (map2 f ms (map (\<lambda>x. fmul x (Fin k)) ss)) i"
proof -
  have i: "i < length ms" using m by (simp add: first_defined_def)
  have "map2 f ms (map (\<lambda>x. fmul x (Fin k)) ss) ! i = f (ms ! i) (fmul (ss ! i) (Fin k))"
    using i len by simp
  moreover have "is_fin (f (ms ! i) (fmul (ss ! i) (Fin k)))" using f fm fs by simp
  moreover have "all_missing (take i (map2 f ms (map (\<lambda>x. fmul x (Fin k)) ss)))"
    unfolding all_missing_def
  proof
    fix v assume "v \<in> set (take i (map2 f ms (map (\<lambda>x. fmul x (Fin k)) ss)))"
    then obtain j where j: "j < i" "j < length ms"
      and v: "v = map2 f ms (map (\<lambda>x. fmul x (Fin k)) ss) ! j"
      using len by (auto simp: in_set_conv_nth)
    have "take i ms ! j \<in> set (take i ms)" using j by (intro nth_mem) simp
    then have "take i ms ! j = NaN" using m by (simp add: first_defined_def all_missing_def)
    then have "ms ! j = NaN" using j by simp
    with v j len show "v = NaN" by (simp add: n)
  qed
  ultimately show ?thesis using i len by (auto simp: first_defined_def)
qed

section \<open>The aggregator on an empty series\<close>

text \<open>
  C10.  When the frame of a \<^verbatim>\<open>TechnicalAnalysis\<close> object is empty, be it the frame
  without columns or a table without rows, neither entry point raises:
  \<^verbatim>\<open>get_all_indicators\<close> returns the empty table and \<^verbatim>\<open>_analyze_single_asset\<close> returns
  \<^verbatim>\<open>None\<close>, no report at all.
\<close>

theorem empty_series_degrades:
  "df_empty d \<Longrightarrow> get_all_indicators d = Inr [] \<and> analyze_single_asset d name = Inr None"
  by (simp add: get_all_indicators_def analyze_single_asset_def)

theorem empty_series_degrades_witness:
  "df_empty (Table []) \<and> get_all_indicators (Table []) = Inr []
     \<and> analyze_single_asset (Table []) ''BTC-USDT'' = Inr None
   \<and> df_empty NoColumns \<and> get_all_indicators NoColumns = Inr []
     \<and> analyze_single_asset NoColumns ''BTC-USDT'' = Inr None"
  using empty_series_degrades [of "Table []" "''BTC-USDT''"]
        empty_series_degrades [of NoColumns "''BTC-USDT''"]
  by simp

section \<open>Moving average and Bollinger bands\<close>

text \<open>
  C7, as amended.  On a series shorter than the period \<open>p\<close>, \<^verbatim>\<open>calculate_ma\<close> and the
  three series of \<^verbatim>\<open>calculate_bollinger_bands\<close> are missing at every position.  On a
  series of at least \<open>p \<ge> 1\<close> candles whose first \<open>p\<close> closes are finite numbers, the
  moving average and the middle band are first defined at position \<open>p - 1\<close>, and so
  are the upper and the lower band when \<open>p \<ge> 2\<close>.
\<close>

theorem ma_bollinger_first_defined:
  "(length rows < p \<longrightarrow>
      calculate_ma (Table rows) p = Inr (replicate (length rows) NaN) \<and>
      calculate_bollinger_bands (Table rows) p k =
        Inr (replicate (length rows) NaN, replicate (length rows) NaN, replicate (length rows) NaN))
   \<and> (0 < p \<and> p \<le> length rows \<and> list_all is_fin (take p (column close rows)) \<longrightarrow>
      (\<exists>ma upper middle lower.
         calculate_ma (Table rows) p = Inr ma \<and>
         calculate_bollinger_bands (Table rows) p k = Inr (upper, middle, lower) \<and>
         first_defined ma (p - 1) \<and> first_defined middle (p - 1) \<and>
         (2 \<le> p \<longrightarrow> first_defined upper (p - 1) \<and> first_defined lower (p - 1))))"
proof (intro conjI impI)
  assume short: "length rows < p"
  then have r: "\<And>agg. rolling p agg (column close rows) = replicate (length rows) NaN"
    using rolling_short [of "column close rows" p] by (simp add: column_def)
  show "calculate_ma (Table rows) p = Inr (replicate (length rows) NaN)"
    by (simp add: rolling_mean_def r)
  show "calculate_bollinger_bands (Table rows) p k =
        Inr (replicate (length rows) NaN, replicate (length rows) NaN, replicate (length rows) NaN)"
    by (simp add: rolling_mean_def rolling_std_def r Let_def fsub_def)
next
  let ?c = "column close rows"
  assume h: "0 < p \<and> p \<le> length rows \<and> list_all is_fin (take p ?c)"
  then have p: "0 < p" and len: "p \<le> length ?c" and fin: "list_all is_fin (take p ?c)"
    by (simp_all add: column_def)
  have ne: "take p ?c \<noteq> []" using p len by auto
  have mfin: "is_fin (mean (take p ?c))" using ne fin by (rule mean_fin)
  have m: "first_defined (rolling_mean p ?c) (p - 1)"
    unfolding rolling_mean_def using p len fin mfin by (rule first_defined_rolling)
  have mv: "is_fin (rolling_mean p ?c ! (p - 1))"
    unfolding rolling_mean_def using rolling_first [OF p len fin, of mean] mfin by simp
  have bands: "first_defined (map2 fadd (rolling_mean p ?c)
                   (map (\<lambda>x. fmul x (Fin (real_of_int k))) (rolling_std p ?c))) (p - 1) \<and>
               first_defined (map2 fsub (rolling_mean p ?c)
                   (map (\<lambda>x. fmul x (Fin (real_of_int k))) (rolling_std p ?c))) (p - 1)"
    if p2: "2 \<le> p"
  proof -
    have "2 \<le> length (take p ?c)" using p2 len by simp
    then have sfin: "is_fin (std (take p ?c))" using fin by (rule std_fin)
    have s: "first_defined (rolling_std p ?c) (p - 1)"
      unfolding rolling_std_def using p len fin sfin by (rule first_defined_rolling)
    have sv: "is_fin (rolling_std p ?c ! (p - 1))"
      unfolding rolling_std_def using rolling_first [OF p len fin, of std] sfin by simp
    have l: "length (rolling_mean p ?c) = length (rolling_std p ?c)"
      by (simp add: rolling_mean_def rolling_std_def)
    have up: "first_defined (map2 fadd (rolling_mean p ?c)
                   (map (\<lambda>x. fmul x (Fin (real_of_int k))) (rolling_std p ?c))) (p - 1)"
      by (rule first_defined_band [OF m s l mv sv]) (simp_all add: is_fin_fadd is_fin_fmul)
    have lo: "first_defined (map2 fsub (rolling_mean p ?c)
                   (map (\<lambda>x. fmul x (Fin (real_of_int k))) (rolling_std p ?c))) (p - 1)"
      by (rule first_defined_band [OF m s l mv sv]) (auto simp: is_fin_iff fsub_def)
    from up lo show ?thesis ..
  qed
  show "\<exists>ma upper middle lower.
         calculate_ma (Table rows) p = Inr ma \<and>
         calculate_bollinger_bands (Table rows) p k = Inr (upper, middle, lower) \<and>
         first_defined ma (p - 1) \<and> first_defined middle (p - 1) \<and>
         (2 \<le> p \<longrightarrow> first_defined upper (p - 1) \<and> first_defined lower (p - 1))"
    using m bands by (simp add: Let_def)
qed


theorem ma_bollinger_first_defined_witness:
  "length [(0::nat, ohlcv 1 1 1 1 1 1), (1, ohlcv 2 2 2 2 2 1), (2, ohlcv 3 4 4 4 4 1)] < 5
   \<and> calculate_ma (Table [(0, ohlcv 1 1 1 1 1 1), (1, ohlcv 2 2 2 2 2 1), (2, ohlcv 3 4 4 4 4 1)]) 5
       = Inr [NaN, NaN, NaN]
   \<and> calculate_bollinger_bands
         (Table [(0, ohlcv 1 1 1 1 1 1), (1, ohlcv 2 2 2 2 2 1), (2, ohlcv 3 4 4 4 4 1)]) 5 2
       = Inr ([NaN, NaN, NaN], [NaN, NaN, NaN], [NaN, NaN, NaN])
   \<and> list_all is_fin
         (take 2 (column close [(0, ohlcv 1 1 1 1 1 1), (1, ohlcv 2 2 2 2 2 1), (2, ohlcv 3 4 4 4 4 1)]))
   \<and> (\<exists>ma upper middle lower.
         calculate_ma (Table [(0, ohlcv 1 1 1 1 1 1), (1, ohlcv 2 2 2 2 2 1), (2, ohlcv 3 4 4 4 4 1)]) 2
           = Inr ma \<and>
         calculate_bollinger_bands
           (Table [(0, ohlcv 1 1 1 1 1 1), (1, ohlcv 2 2 2 2 2 1), (2, ohlcv 3 4 4 4 4 1)]) 2 2
           = Inr (upper, middle, lower) \<and>
         first_defined ma 1 \<and> first_defined middle 1 \<and>
         first_defined upper 1 \<and> first_defined lower 1)"
proof -
  let ?rows = "[(0::nat, ohlcv 1 1 1 1 1 1), (1, ohlcv 2 2 2 2 2 1), (2, ohlcv 3 4 4 4 4 1)]"
  have short: "length ?rows < 5" by simp
  have fin: "list_all is_fin (take 2 (column close ?rows))"
    by (simp add: column_def ohlcv_def)
  have long: "0 < (2::nat) \<and> 2 \<le> length ?rows \<and> list_all is_fin (take 2 (column close ?rows))"
    using fin by simp
  note inst5 = ma_bollinger_first_defined [of ?rows 5 2]
  note inst2 = ma_bollinger_first_defined [of ?rows 2 2]
  from inst5 short have a: "calculate_ma (Table ?rows) 5 = Inr (replicate (length ?rows) NaN) \<and>
      calculate_bollinger_bands (Table ?rows) 5 2 =
        Inr (replicate (length ?rows) NaN, replicate (length ?rows) NaN, replicate (length ?rows) NaN)"
    by blast
  from inst2 long have b: "\<exists>ma upper middle lower.
         calculate_ma (Table ?rows) 2 = Inr ma \<and>
         calculate_bollinger_bands (Table ?rows) 2 2 = Inr (upper, middle, lower) \<and>
         first_defined ma (2 - 1) \<and> first_defined middle (2 - 1) \<and>
         ((2::nat) \<le> 2 \<longrightarrow> first_defined upper (2 - 1) \<and> first_defined lower (2 - 1))"
    by blast
  have one: "(2::nat) - 1 = 1" by simp
  from b have b': "\<exists>ma upper middle lower.
         calculate_ma (Table ?rows) 2 = Inr ma \<and>
         calculate_bollinger_bands (Table ?rows) 2 2 = Inr (upper, middle, lower) \<and>
         first_defined ma 1 \<and> first_defined middle 1 \<and>
         first_defined upper 1 \<and> first_defined lower 1"
    unfolding one by auto
  have rep: "replicate (length ?rows) NaN = [NaN, NaN, NaN]" by simp
  from a have a': "calculate_ma (Table ?rows) 5 = Inr [NaN, NaN, NaN] \<and>
      calculate_bollinger_bands (Table ?rows) 5 2 = Inr ([NaN, NaN, NaN], [NaN, NaN, NaN], [NaN, NaN, NaN])"
    unfolding rep .
  from short a' fin b' show ?thesis by blast
qed

text \<open>
  The claim without the two conditions fails.  A missing close in the first window
  delays the first defined position of the moving average: with period 2 and closes
  \<open>NaN, 1, 2\<close> it is position 2.  With period 1 the standard deviation of a single
  observation is missing, so the upper and the lower band are never defined.
\<close>

theorem ma_bollinger_counterexample:
  "calculate_ma (Table [(0, (ohlcv 1 1 1 1 1 1)\<lparr>close := NaN\<rparr>), (1, ohlcv 2 1 1 1 1 1),
                        (2, ohlcv 3 2 2 2 2 1)]) 2
     = Inr [NaN, NaN, Fin (3 / 2)]
   \<and> calculate_bollinger_bands (Table [(0, ohlcv 1 5 5 5 5 1)]) 1 2 = Inr ([NaN], [Fin 5], [NaN])"
  by (simp add: ohlcv_def series_defs)

section \<open>On-balance volume\<close>

lemma calculate_obv_simps [simp]:
  "calculate_obv NoColumns = Inl KeyError"
  "calculate_obv (Table rows) =
     (let obv = replicate (length rows) NaN in
      bind (iloc_first (column vol rows)) (\<lambda>v0.
        Inr (fold (obv_step fadd fsub (column close rows) (column vol rows)) [1..<length rows]
               (obv[0 := v0]))))"
  by (simp_all add: calculate_obv_def)

lemma length_fold_obv: "length (fold (obv_step add sub c v) is obv) = length obv"
  by (induction "is" arbitrary: obv) (simp_all add: obv_step_def)

lemma fold_obv_untouched:
  "\<forall>i\<in>set is. j < i \<Longrightarrow> fold (obv_step add sub c v) is obv ! j = obv ! j"
  by (induction "is" arbitrary: obv) (simp_all add: obv_step_def)

lemma obv_step_delta:
  "obv_step add sub c v i obv = obv[i := obv_delta add sub c v i (obv ! (i - 1))]"
  by (simp add: obv_step_def obv_delta_def)

lemma fold_obv_rec:
  assumes i: "1 \<le> i" "i < n" and len: "length obv = n"
  shows "fold (obv_step add sub c v) [1..<n] obv ! i
         = obv_delta add sub c v i (fold (obv_step add sub c v) [1..<n] obv ! (i - 1))"
proof -
  let ?A = "fold (obv_step add sub c v) [1..<i] obv"
  let ?B = "fold (obv_step add sub c v) [1..<Suc i] obv"
  have split: "[1..<n] = [1..<Suc i] @ [Suc i..<n]"
    using i by (metis Suc_leI le_add1 less_imp_le_nat plus_1_eq_Suc upt_add_eq_append le_Suc_ex)
  have B: "?B = ?A[i := obv_delta add sub c v i (?A ! (i - 1))]"
    using i by (simp add: obv_step_delta)
  have lenA: "length ?A = n" by (simp add: length_fold_obv len)
  have full: "fold (obv_step add sub c v) [1..<n] obv = fold (obv_step add sub c v) [Suc i..<n] ?B"
    by (subst split) simp
  have "fold (obv_step add sub c v) [1..<n] obv ! i = ?B ! i"
    unfolding full by (rule fold_obv_untouched) simp
  moreover have "fold (obv_step add sub c v) [1..<n] obv ! (i - 1) = ?B ! (i - 1)"
    unfolding full by (rule fold_obv_untouched) (use i in auto)
  moreover have "?B ! i = obv_delta add sub c v i (?A ! (i - 1))"
    unfolding B using lenA i by simp
  moreover have "?B ! (i - 1) = ?A ! (i - 1)"
    unfolding B using i by simp
  ultimately show ?thesis by simp
qed

lemma fold_obv_zero: "fold (obv_step add sub c v) [1..<n] obv ! 0 = obv ! 0"
  by (rule fold_obv_untouched) simp

text \<open>The series that the loop returns on a table with rows, for every \<open>add\<close> and \<open>sub\<close>.\<close>

lemma calculate_obv_with_rows:
  assumes "rows \<noteq> []"
  shows "\<exists>obv. calculate_obv_with add sub (Table rows) = Inr obv \<and> length obv = length rows \<and>
           obv ! 0 = column vol rows ! 0 \<and>
           (\<forall>i. 1 \<le> i \<and> i < length rows \<longrightarrow>
              obv ! i = obv_delta add sub (column close rows) (column vol rows) i (obv ! (i - 1)))"
proof -
  let ?c = "column close rows" and ?v = "column vol rows"
  let ?o = "(replicate (length rows) NaN)[0 := ?v ! 0]"
  let ?r = "fold (obv_step add sub ?c ?v) [1..<length rows] ?o"
  from assms obtain r rs where rows: "rows = r # rs" by (cases rows) auto
  have first: "iloc_first ?v = Inr (?v ! 0)"
    by (simp add: rows iloc_first_def column_def)
  have res: "calculate_obv_with add sub (Table rows) = Inr ?r"
    by (simp add: first bind_def Let_def)
  have l: "length ?r = length rows" by (simp add: length_fold_obv)
  have "?r ! 0 = ?o ! 0" by (rule fold_obv_zero)
  moreover have "?o ! 0 = ?v ! 0" using assms by simp
  ultimately have z: "?r ! 0 = ?v ! 0" by simp
  have s: "\<forall>i. 1 \<le> i \<and> i < length rows \<longrightarrow>
             ?r ! i = obv_delta add sub ?c ?v i (?r ! (i - 1))"
    by (intro allI impI fold_obv_rec) simp_all
  from res l z s show ?thesis by blast
qed

text \<open>
  C8, as amended.  On a series with at least one candle, and for every addition and
  subtraction the loop may use (so for those of float64), \<^verbatim>\<open>calculate_obv\<close> returns a
  series of the same length that starts with the volume of the first candle.  Each
  later value is obtained from the value before it: by adding the volume of the
  candle when the close rose, by subtracting it when the close fell, and unchanged
  otherwise (equal closes, or a comparison with a missing close).
\<close>

theorem obv_cumulative:
  assumes ne: "rows \<noteq> []"
  shows "\<exists>obv. calculate_obv_with add sub (Table rows) = Inr obv \<and> length obv = length rows \<and>
           obv ! 0 = vol (snd (rows ! 0)) \<and>
           (\<forall>i. 1 \<le> i \<and> i < length rows \<longrightarrow>
              obv ! i =
                (if fgt (close (snd (rows ! i))) (close (snd (rows ! (i - 1))))
                 then add (obv ! (i - 1)) (vol (snd (rows ! i)))
                 else if flt (close (snd (rows ! i))) (close (snd (rows ! (i - 1))))
                 then sub (obv ! (i - 1)) (vol (snd (rows ! i)))
                 else obv ! (i - 1)))"
proof -
  let ?c = "column close rows" and ?v = "column vol rows"
  from calculate_obv_with_rows [OF ne, of add sub] obtain obv where
    res: "calculate_obv_with add sub (Table rows) = Inr obv" and
    len: "length obv = length rows" and
    z: "obv ! 0 = ?v ! 0" and
    step: "\<And>i. 1 \<le> i \<Longrightarrow> i < length rows \<Longrightarrow>
             obv ! i = obv_delta add sub ?c ?v i (obv ! (i - 1))"
    by blast
  have col: "?c ! i = close (snd (rows ! i))" "?v ! i = vol (snd (rows ! i))"
    if "i < length rows" for i
    using that by (simp_all add: column_def)
  have d: "obv ! i =
                (if fgt (close (snd (rows ! i))) (close (snd (rows ! (i - 1))))
                 then add (obv ! (i - 1)) (vol (snd (rows ! i)))
                 else if flt (close (snd (rows ! i))) (close (snd (rows ! (i - 1))))
                 then sub (obv ! (i - 1)) (vol (snd (rows ! i)))
                 else obv ! (i - 1))"
    if i: "1 \<le> i" "i < length rows" for i
  proof -
    have "i - 1 < length rows" using i by simp
    then show ?thesis
      using step [OF i] i by (simp add: obv_delta_def col)
  qed
  have "obv ! 0 = vol (snd (rows ! 0))" using z ne by (simp add: col)
  with res len d show ?thesis by blast
qed

text \<open>
  The theorem at three candles with closes \<open>1, 2, 1\<close> and volumes \<open>10, 5, 3\<close>, with
  the arithmetic of \<open>fval\<close>, where no sum is rounded: the series is \<open>10, 15, 12\<close>.
\<close>

theorem obv_cumulative_witness:
  "[(0::nat, ohlcv 1 1 1 1 1 10), (1, ohlcv 2 2 2 2 2 5), (2, ohlcv 3 1 1 1 1 3)] \<noteq> []
   \<and> (\<exists>obv. calculate_obv_with fadd fsub
               (Table [(0, ohlcv 1 1 1 1 1 10), (1, ohlcv 2 2 2 2 2 5), (2, ohlcv 3 1 1 1 1 3)])
             = Inr obv
         \<and> length obv = 3 \<and> obv ! 0 = Fin 10 \<and> obv ! 1 = Fin 15 \<and> obv ! 2 = Fin 12)"
proof -
  let ?rows = "[(0::nat, ohlcv 1 1 1 1 1 10), (1, ohlcv 2 2 2 2 2 5), (2, ohlcv 3 1 1 1 1 3)]"
  have ne: "?rows \<noteq> []" by simp
  from obv_cumulative [OF ne, of fadd fsub] obtain obv where
    res: "calculate_obv_with fadd fsub (Table ?rows) = Inr obv" and
    len: "length obv = length ?rows" and
    z: "obv ! 0 = vol (snd (?rows ! 0))" and
    d: "\<And>i. 1 \<le> i \<and> i < length ?rows \<Longrightarrow> obv ! i =
                (if fgt (close (snd (?rows ! i))) (close (snd (?rows ! (i - 1))))
                 then fadd (obv ! (i - 1)) (vol (snd (?rows ! i)))
                 else if flt (close (snd (?rows ! i))) (close (snd (?rows ! (i - 1))))
                 then fsub (obv ! (i - 1)) (vol (snd (?rows ! i)))
                 else obv ! (i - 1))"
    by blast
  have o0: "obv ! 0 = Fin 10" using z by (simp add: ohlcv_def)
  have "obv ! 1 = fadd (obv ! 0) (Fin 5)" using d [of 1] by (simp add: ohlcv_def fgt_def)
  with o0 have o1: "obv ! 1 = Fin 15" by simp
  have "obv ! 2 = fsub (obv ! 1) (Fin 3)" using d [of 2] by (simp add: ohlcv_def fgt_def)
  with o1 have o2: "obv ! 2 = Fin 12" by (simp add: fsub_def)
  have l3: "length obv = 3" using len by simp
  have "\<exists>obv. calculate_obv_with fadd fsub (Table ?rows) = Inr obv
         \<and> length obv = 3 \<and> obv ! 0 = Fin 10 \<and> obv ! 1 = Fin 15 \<and> obv ! 2 = Fin 12"
    using res l3 o0 o1 o2 by (intro exI [of _ obv] conjI)
  with ne show ?thesis by (intro conjI)
qed

text \<open>
  The claim speaks of the difference of two neighbouring values, and that is not
  always the volume.  A missing volume makes the running sum missing from there on:
  with volumes \<open>NaN, 5\<close> and a rising close the series is \<open>NaN, NaN\<close>, and the
  difference of its two values is not the volume 5.  (Rounding is a second cause:
  in float64 the sum of \<open>2^53\<close> and 1 is \<open>2^53\<close>.)
\<close>

theorem obv_counterexample:
  "calculate_obv (Table [(0, (ohlcv 1 1 1 1 1 0)\<lparr>vol := NaN\<rparr>), (1, ohlcv 2 2 2 2 2 5)])
     = Inr [NaN, NaN]
   \<and> fgt (close (ohlcv 2 2 2 2 2 5)) (close ((ohlcv 1 1 1 1 1 0)\<lparr>vol := NaN\<rparr>))
   \<and> vol (ohlcv 2 2 2 2 2 5) = Fin 5
   \<and> fsub NaN NaN \<noteq> Fin 5"
  by (simp add: ohlcv_def series_defs obv_step_def iloc_first_def bind_def)

section \<open>Relative strength index\<close>

lemma fsub_NaN [simp]: "fsub a NaN = NaN" "fsub NaN b = NaN"
  by (cases a; simp add: fsub_def)+

lemma length_shift [simp]: "length (shift xs) = length xs"
  by (simp add: shift_def)

lemma length_diff [simp]: "length (diff xs) = length xs"
  by (simp add: diff_def)

lemma set_shift: "set (shift xs) \<subseteq> insert NaN (set xs)"
  by (auto simp: shift_def dest: in_set_butlastD)

lemma where_s_map: "where_s xs (map P xs) v = map (\<lambda>x. if P x then x else v) xs"
  by (induction xs) (simp_all add: where_s_def)

lemma rsi_gain_eq: "rsi_gain closes = map (\<lambda>d. if fgt d (Fin 0) then d else Fin 0) (diff closes)"
  by (simp add: rsi_gain_def Let_def where_s_map)

lemma rsi_loss_eq:
  "rsi_loss closes = map (\<lambda>d. fneg (if flt d (Fin 0) then d else Fin 0)) (diff closes)"
  by (simp add: rsi_loss_def Let_def where_s_map)

lemma length_rsi_gain [simp]: "length (rsi_gain closes) = length closes"
  by (simp add: rsi_gain_eq)

lemma length_rsi_loss [simp]: "length (rsi_loss closes) = length closes"
  by (simp add: rsi_loss_eq)

lemma length_rolling_mean [simp]: "length (rolling_mean p xs) = length xs"
  by (simp add: rolling_mean_def)

lemma length_rsi_of [simp]: "length (rsi_of p closes) = length closes"
  by (simp add: rsi_of_def Let_def)

lemma rsi_of_nth:
  "i < length closes \<Longrightarrow>
   rsi_of p closes ! i =
     fsub (Fin 100) (fdiv (Fin 100) (fadd (Fin 1)
       (fdiv (rolling_mean p (rsi_gain closes) ! i) (rolling_mean p (rsi_loss closes) ! i))))"
  by (simp add: rsi_of_def Let_def)

lemma diff_no_inf:
  assumes "set xs \<subseteq> insert NaN (range Fin)"
  shows "set (diff xs) \<subseteq> insert NaN (range Fin)"
proof
  fix d assume "d \<in> set (diff xs)"
  then obtain a b where a: "a \<in> set xs" and b: "b \<in> set (shift xs)" and d: "d = fsub a b"
    by (auto simp: diff_def dest: set_zip_leftD set_zip_rightD)
  from b have "b \<in> insert NaN (set xs)" using set_shift by blast
  with a assms have "a \<in> insert NaN (range Fin)" "b \<in> insert NaN (range Fin)" by auto
  with d show "d \<in> insert NaN (range Fin)" by (auto simp: fsub_def)
qed

lemma gain_nonneg:
  assumes "set xs \<subseteq> insert NaN (range Fin)"
  shows "set (rsi_gain xs) \<subseteq> Fin ` {0..}"
proof
  fix g assume "g \<in> set (rsi_gain xs)"
  then obtain d where d: "d \<in> set (diff xs)" and g: "g = (if fgt d (Fin 0) then d else Fin 0)"
    by (auto simp: rsi_gain_eq)
  from d diff_no_inf [OF assms] have "d \<in> insert NaN (range Fin)" by blast
  with g show "g \<in> Fin ` {0..}" by (auto simp: fgt_def)
qed

lemma loss_nonneg:
  assumes "set xs \<subseteq> insert NaN (range Fin)"
  shows "set (rsi_loss xs) \<subseteq> Fin ` {0..}"
proof
  fix g assume "g \<in> set (rsi_loss xs)"
  then obtain d where d: "d \<in> set (diff xs)"
    and g: "g = fneg (if flt d (Fin 0) then d else Fin 0)"
    by (auto simp: rsi_loss_eq)
  from d diff_no_inf [OF assms] have "d \<in> insert NaN (range Fin)" by blast
  with g show "g \<in> Fin ` {0..}" by (auto simp: image_iff)
qed

lemma mean_nonneg:
  assumes ne: "w \<noteq> []" and nn: "set w \<subseteq> Fin ` {0..}"
  shows "mean w \<in> Fin ` {0..}"
proof -
  from nn have "\<forall>x\<in>set w. is_fin x" by auto
  then obtain rs where w: "w = map Fin rs" using all_fin_map by blast
  with ne have rs: "rs \<noteq> []" by auto
  have "\<forall>r\<in>set rs. 0 \<le> r" using nn unfolding w by auto
  then have "0 \<le> sum_list rs" by (simp add: sum_list_nonneg)
  then have "0 \<le> sum_list rs / real (length rs)" by simp
  then show ?thesis unfolding w using rs by (simp add: mean_map_Fin)
qed

lemma rolling_mean_nonneg:
  assumes nn: "set xs \<subseteq> Fin ` {0..}" and i: "i < length xs"
  shows "rolling_mean p xs ! i \<in> insert NaN (Fin ` {0..})"
proof (cases "full_window p (window p i xs)")
  case True
  then have "window p i xs \<noteq> []" by (auto simp: full_window_def)
  moreover have "set (window p i xs) \<subseteq> Fin ` {0..}" using set_window nn by blast
  ultimately have "mean (window p i xs) \<in> Fin ` {0..}" by (rule mean_nonneg)
  with True i show ?thesis by (simp add: rolling_mean_def rolling_nth)
next
  case False
  with i show ?thesis by (simp add: rolling_mean_def rolling_nth)
qed

lemma rsi_value_bounded:
  assumes "a \<in> insert NaN (Fin ` {0..})" and "l \<in> insert NaN (Fin ` {0..})"
  shows "fsub (Fin 100) (fdiv (Fin 100) (fadd (Fin 1) (fdiv a l))) \<in> insert NaN (Fin ` {0..100})"
proof -
  consider "a = NaN \<or> l = NaN" | x y where "a = Fin x" "l = Fin y" "0 \<le> x" "0 \<le> y"
    using assms by auto
  then show ?thesis
  proof cases
    case 1
    then show ?thesis by (cases a) (auto simp: fsub_def)
  next
    case 2
    show ?thesis
    proof (cases "y = 0")
      case True
      with 2 show ?thesis by (auto simp: inf_of_sign_def fsub_def)
    next
      case False
      with 2 have y: "0 < y" by simp
      with 2 have q: "0 \<le> x / y" by simp
      then have pos: "1 + x / y \<noteq> 0" by linarith
      have le: "100 / (1 + x / y) \<le> 100" using q by (simp add: divide_le_eq)
      have ge: "0 \<le> 100 / (1 + x / y)" using q by simp
      from 2 False pos le ge show ?thesis by (simp add: fsub_def)
    qed
  qed
qed


lemma rsi_of_bounded:
  assumes "set closes \<subseteq> insert NaN (range Fin)" and "i < length closes"
  shows "rsi_of p closes ! i \<in> insert NaN (Fin ` {0..100})"
proof -
  have "rolling_mean p (rsi_gain closes) ! i \<in> insert NaN (Fin ` {0..})"
    using gain_nonneg [OF assms(1)] assms(2) by (intro rolling_mean_nonneg) simp_all
  moreover have "rolling_mean p (rsi_loss closes) ! i \<in> insert NaN (Fin ` {0..})"
    using loss_nonneg [OF assms(1)] assms(2) by (intro rolling_mean_nonneg) simp_all
  ultimately show ?thesis
    unfolding rsi_of_nth [OF assms(2)] by (rule rsi_value_bounded)
qed

text \<open>
  C9.  On a series whose closes are all finite numbers, for every period,
  \<^verbatim>\<open>calculate_rsi\<close> returns a series of the same length, and each of its values that
  is not missing is a number between 0 and 100.
\<close>

theorem rsi_bounded:
  assumes "list_all is_fin (column close rows)"
  shows "\<exists>rsi. calculate_rsi (Table rows) p = Inr rsi \<and> length rsi = length rows \<and>
           (\<forall>i<length rows. rsi ! i \<noteq> NaN \<longrightarrow> (\<exists>x. rsi ! i = Fin x \<and> 0 \<le> x \<and> x \<le> 100))"
proof -
  let ?c = "column close rows"
  have len: "length ?c = length rows" by (simp add: column_def)
  have sub: "set ?c \<subseteq> insert NaN (range Fin)"
    using assms by (auto simp: list_all_iff is_fin_iff)
  have "\<exists>x. rsi_of p ?c ! i = Fin x \<and> 0 \<le> x \<and> x \<le> 100"
    if "i < length rows" "rsi_of p ?c ! i \<noteq> NaN" for i
    using rsi_of_bounded [OF sub, of i p] that len by auto
  then show ?thesis using len by simp
qed

theorem rsi_bounded_witness:
  "list_all is_fin (column close [(0::nat, ohlcv 1 1 1 1 1 1), (1, ohlcv 2 2 2 2 2 1), (2, ohlcv 3 1 1 1 1 1)])
   \<and> calculate_rsi (Table [(0, ohlcv 1 1 1 1 1 1), (1, ohlcv 2 2 2 2 2 1), (2, ohlcv 3 1 1 1 1 1)]) 2
       = Inr [NaN, Fin 100, Fin 50]
   \<and> (\<exists>rsi. calculate_rsi (Table [(0, ohlcv 1 1 1 1 1 1), (1, ohlcv 2 2 2 2 2 1), (2, ohlcv 3 1 1 1 1 1)]) 2
               = Inr rsi
         \<and> (\<exists>x. rsi ! 1 = Fin x \<and> 0 \<le> x \<and> x \<le> 100)
         \<and> (\<exists>x. rsi ! 2 = Fin x \<and> 0 \<le> x \<and> x \<le> 100))"
proof -
  let ?rows = "[(0::nat, ohlcv 1 1 1 1 1 1), (1, ohlcv 2 2 2 2 2 1), (2, ohlcv 3 1 1 1 1 1)]"
  have fin: "list_all is_fin (column close ?rows)" by (simp add: column_def ohlcv_def)
  have ev: "calculate_rsi (Table ?rows) 2 = Inr [NaN, Fin 100, Fin 50]"
    by (simp add: ohlcv_def rsi_of_def rsi_gain_def rsi_loss_def series_defs)
  from rsi_bounded [OF fin, of 2] obtain rsi where
    res: "calculate_rsi (Table ?rows) 2 = Inr rsi" and
    b: "\<And>i. i < length ?rows \<Longrightarrow> rsi ! i \<noteq> NaN \<Longrightarrow> (\<exists>x. rsi ! i = Fin x \<and> 0 \<le> x \<and> x \<le> 100)"
    by blast
  from res ev have rsi: "rsi = [NaN, Fin 100, Fin 50]" by simp
  have "\<exists>x. rsi ! 1 = Fin x \<and> 0 \<le> x \<and> x \<le> 100" by (rule b) (simp_all add: rsi)
  moreover have "\<exists>x. rsi ! 2 = Fin x \<and> 0 \<le> x \<and> x \<le> 100" by (rule b) (simp_all add: rsi)
  ultimately show ?thesis using fin ev res by blast
qed

lemma rsi_prefix_missing: "all_missing (take (p - 1) (rsi_of p closes))"
  unfolding all_missing_def
proof
  fix v assume "v \<in> set (take (p - 1) (rsi_of p closes))"
  then obtain i where i: "i < p - 1" "i < length closes" and v: "v = rsi_of p closes ! i"
    by (auto simp: in_set_conv_nth)
  then have "rolling_mean p (rsi_gain closes) ! i = NaN"
    by (simp add: rolling_mean_def rolling_before)
  with i v show "v = NaN" by (simp add: rsi_of_nth)
qed

text \<open>
  C4, as amended.  For every series and period \<open>p\<close>, \<^verbatim>\<open>calculate_rsi\<close> returns a
  series of the same length and does not raise.  Its first \<open>p - 1\<close> positions are
  missing.  At a position where the average loss over the window is zero, the value
  is 100 when the average gain is a number other than zero, and it is missing when
  the average gain is zero as well (zero over zero).
\<close>

theorem rsi_zero_average_loss:
  "\<exists>rsi. calculate_rsi (Table rows) p = Inr rsi \<and> length rsi = length rows \<and>
      all_missing (take (p - 1) rsi) \<and>
      (\<forall>i<length rows. \<forall>g.
         rolling_mean p (rsi_loss (column close rows)) ! i = Fin 0 \<and>
         rolling_mean p (rsi_gain (column close rows)) ! i = Fin g \<longrightarrow>
         rsi ! i = (if g = 0 then NaN else Fin 100))"
proof -
  let ?c = "column close rows"
  have len: "length ?c = length rows" by (simp add: column_def)
  have "rsi_of p ?c ! i = (if g = 0 then NaN else Fin 100)"
    if "i < length rows" "rolling_mean p (rsi_loss ?c) ! i = Fin 0"
       "rolling_mean p (rsi_gain ?c) ! i = Fin g" for i g
    using that len by (simp add: rsi_of_nth inf_of_sign_def fsub_def)
  then show ?thesis using len rsi_prefix_missing [of p ?c] by simp
qed

text \<open>
  The claim as stated fails twice with period 2.  On the flat closes \<open>1, 1, 1\<close> the
  average loss is zero at positions 1 and 2 and the index is missing there.  On the
  closes \<open>1, 2, 1\<close> position 1, one of the first two, is defined.
\<close>

theorem rsi_zero_average_loss_counterexample:
  "calculate_rsi (Table [(0, ohlcv 1 1 1 1 1 1), (1, ohlcv 2 1 1 1 1 1), (2, ohlcv 3 1 1 1 1 1)]) 2
     = Inr [NaN, NaN, NaN]
   \<and> rolling_mean 2 (rsi_loss
        (column close [(0, ohlcv 1 1 1 1 1 1), (1, ohlcv 2 1 1 1 1 1), (2, ohlcv 3 1 1 1 1 1)]))
     = [NaN, Fin 0, Fin 0]
   \<and> calculate_rsi (Table [(0, ohlcv 1 1 1 1 1 1), (1, ohlcv 2 2 2 2 2 1), (2, ohlcv 3 1 1 1 1 1)]) 2
     = Inr [NaN, Fin 100, Fin 50]"
  by (simp add: ohlcv_def rsi_of_def rsi_gain_def rsi_loss_def series_defs)

theorem rsi_zero_average_loss_witness:
  "rolling_mean 2 (rsi_loss
      (column close [(0::nat, ohlcv 1 1 1 1 1 1), (1, ohlcv 2 2 2 2 2 1), (2, ohlcv 3 2 2 2 2 1)])) ! 2
     = Fin 0
   \<and> rolling_mean 2 (rsi_gain
      (column close [(0::nat, ohlcv 1 1 1 1 1 1), (1, ohlcv 2 2 2 2 2 1), (2, ohlcv 3 2 2 2 2 1)])) ! 2
     = Fin (1 / 2)
   \<and> (\<exists>rsi. calculate_rsi (Table [(0, ohlcv 1 1 1 1 1 1), (1, ohlcv 2 2 2 2 2 1), (2, ohlcv 3 2 2 2 2 1)]) 2
               = Inr rsi
         \<and> rsi ! 2 = Fin 100 \<and> all_missing (take 1 rsi))"
proof -
  let ?rows = "[(0::nat, ohlcv 1 1 1 1 1 1), (1, ohlcv 2 2 2 2 2 1), (2, ohlcv 3 2 2 2 2 1)]"
  have l: "rolling_mean 2 (rsi_loss (column close ?rows)) ! 2 = Fin 0"
    by (simp add: ohlcv_def rsi_loss_def series_defs)
  have g: "rolling_mean 2 (rsi_gain (column close ?rows)) ! 2 = Fin (1 / 2)"
    by (simp add: ohlcv_def rsi_gain_def series_defs)
  from rsi_zero_average_loss [of ?rows 2] obtain rsi where
    res: "calculate_rsi (Table ?rows) 2 = Inr rsi" and
    pre: "all_missing (take (2 - 1) rsi)" and
    z: "\<And>i g. i < length ?rows \<Longrightarrow>
         rolling_mean 2 (rsi_loss (column close ?rows)) ! i = Fin 0 \<and>
         rolling_mean 2 (rsi_gain (column close ?rows)) ! i = Fin g \<Longrightarrow>
         rsi ! i = (if g = 0 then NaN else Fin 100)"
    by blast
  have "rsi ! 2 = (if (1 / 2 :: real) = 0 then NaN else Fin 100)"
    by (rule z) (use l g in simp_all)
  then have "rsi ! 2 = Fin 100" by simp
  moreover from pre have "all_missing (take 1 rsi)" by simp
  ultimately show ?thesis using l g res by blast
qed

section \<open>The normalizer sorts by timestamp\<close>

lemma ts_le_refl: "ts_le a a"
  by (cases a) auto

lemma ts_le_trans: "ts_le a b \<Longrightarrow> ts_le b c \<Longrightarrow> ts_le a c"
  by (cases a; cases b; cases c) auto

lemma ts_lt_le: "ts_lt a b \<Longrightarrow> ts_le a b"
  by (cases a; cases b) auto

lemma not_ts_lt: "\<not> ts_lt a b \<Longrightarrow> ts_le b a"
  by (cases a; cases b) auto

lemma ts_le_neq: "ts_le a b \<Longrightarrow> a \<noteq> b \<Longrightarrow> ts_lt a b"
  by (cases a; cases b) auto

lemma mset_insert_row: "mset (insert_row key r xs) = add_mset r (mset xs)"
  by (induction xs) auto

lemma set_insert_row: "set (insert_row key r xs) = insert r (set xs)"
  by (induction xs) auto

lemma mset_sort_values: "mset (sort_values key xs) = mset xs"
  by (induction xs) (auto simp: mset_insert_row)

lemma length_sort_values [simp]: "length (sort_values key xs) = length xs"
  using mset_sort_values [of key xs] by (metis size_mset)

lemma sorted_insert_row:
  "sorted_wrt (\<lambda>a b. ts_le (key (snd a)) (key (snd b))) xs \<Longrightarrow>
   sorted_wrt (\<lambda>a b. ts_le (key (snd a)) (key (snd b))) (insert_row key r xs)"
proof (induction xs)
  case Nil
  then show ?case by simp
next
  case (Cons x xs)
  show ?case
  proof (cases "ts_lt (key (snd x)) (key (snd r))")
    case True
    then have "ts_le (key (snd x)) (key (snd r))" by (rule ts_lt_le)
    with True Cons show ?thesis by (auto simp: set_insert_row)
  next
    case False
    then have rx: "ts_le (key (snd r)) (key (snd x))" by (rule not_ts_lt)
    have "\<forall>y\<in>set xs. ts_le (key (snd r)) (key (snd y))"
      using Cons.prems rx by (auto intro: ts_le_trans)
    with False rx Cons.prems show ?thesis by auto
  qed
qed

lemma sorted_sort_values:
  "sorted_wrt (\<lambda>a b. ts_le (key (snd a)) (key (snd b))) (sort_values key xs)"
  by (induction xs) (auto intro: sorted_insert_row)

lemma sorted_keys_sort_values:
  "sorted_wrt ts_le (map (\<lambda>r. key (snd r)) (sort_values key xs))"
  using sorted_sort_values [of key xs] by (simp add: sorted_wrt_map)

lemma strict_of_distinct:
  "sorted_wrt ts_le ks \<Longrightarrow> distinct ks \<Longrightarrow> sorted_wrt ts_lt ks"
  by (induction ks) (auto intro: ts_le_neq)

lemma map_fst_reset_index: "map fst (reset_index xs) = [0..<length xs]"
  by (simp add: reset_index_def)

lemma map_snd_reset_index: "map snd (reset_index xs) = map snd xs"
  by (simp add: reset_index_def)

lemma length_reset_index [simp]: "length (reset_index xs) = length xs"
  by (simp add: reset_index_def)

lemma to_datetime_Inr:
  "to_datetime rs = Inr ts \<Longrightarrow> ts = map parse_time rs \<and> TimeUnparseable \<notin> set rs"
proof (induction rs arbitrary: ts)
  case Nil
  then show ?case by simp
next
  case (Cons r rs)
  then show ?case
    by (cases r; cases "to_datetime rs") (auto simp: bind_def)
qed

lemma to_datetime_total:
  "TimeUnparseable \<notin> set rs \<Longrightarrow> to_datetime rs = Inr (map parse_time rs)"
proof (induction rs)
  case Nil
  then show ?case by simp
next
  case (Cons r rs)
  then show ?case by (cases r) (auto simp: bind_def)
qed

lemma to_datetime_Inl: "to_datetime rs = Inl e \<Longrightarrow> e = DateParseError"
proof (induction rs)
  case Nil
  then show ?case by simp
next
  case (Cons r rs)
  then show ?case
    by (cases r; cases "to_datetime rs") (auto simp: bind_def)
qed

lemma process_dataframe_rows:
  assumes "process_dataframe kline = Inr (Table rows)"
  shows "TimeUnparseable \<notin> raw_datetime ` set kline \<and>
         rows = map (\<lambda>r. (fst r, coerce_row (snd r)))
                  (reset_index (sort_values fst
                     (map2 (\<lambda>r t. (fst r, (t, snd r))) (DataFrame kline)
                        (map (\<lambda>c. parse_time (raw_datetime c)) kline))))"
proof -
  let ?raw = "map (\<lambda>r. raw_datetime (snd r)) (DataFrame kline)"
  have raw: "?raw = map raw_datetime kline"
    by (rule nth_equalityI) (simp_all add: DataFrame_def)
  from assms have ne: "DataFrame kline \<noteq> []"
    by (auto simp: process_dataframe_def Let_def split: if_splits)
  from assms ne obtain ts where ts: "to_datetime ?raw = Inr ts"
    by (cases "to_datetime ?raw") (auto simp: process_dataframe_def Let_def bind_def)
  from to_datetime_Inr [OF ts] have t: "ts = map (\<lambda>c. parse_time (raw_datetime c)) kline"
    and u: "TimeUnparseable \<notin> raw_datetime ` set kline"
    unfolding raw by auto
  from assms ne ts have "rows = map (\<lambda>r. (fst r, coerce_row (snd r)))
                  (reset_index (sort_values fst
                     (map2 (\<lambda>r t. (fst r, (t, snd r))) (DataFrame kline) ts)))"
    by (simp add: process_dataframe_def Let_def bind_def)
  with t u show ?thesis by simp
qed

lemma process_dataframe_accepts:
  assumes "TimeUnparseable \<notin> raw_datetime ` set kline"
  shows "\<exists>d. process_dataframe kline = Inr d"
proof -
  have "map (\<lambda>r. raw_datetime (snd r)) (DataFrame kline) = map raw_datetime kline"
    by (rule nth_equalityI) (simp_all add: DataFrame_def)
  with assms have "to_datetime (map (\<lambda>r. raw_datetime (snd r)) (DataFrame kline))
      = Inr (map parse_time (map raw_datetime kline))"
    using to_datetime_total [of "map raw_datetime kline"] by simp
  then show ?thesis by (simp add: process_dataframe_def Let_def bind_def)
qed

text \<open>
  C3, as amended.  When \<^verbatim>\<open>_process_dataframe\<close> accepts a list of raw candles and
  returns a table, the table holds the candles of the list, each once, in ascending
  order of their timestamps with missing timestamps last, and its index is
  \<open>0 .. n-1\<close>.  The order is strictly ascending when the timestamps are pairwise
  distinct.  Candles with equal timestamps are kept and raise no error
  (\<open>process_dataframe_accepts\<close>: only a timestamp that cannot be parsed does).
\<close>

theorem normalizer_sorted:
  assumes "process_dataframe kline = Inr (Table rows)"
  shows "map fst rows = [0..<length kline] \<and>
         sorted_wrt ts_le (column datetime rows) \<and>
         (distinct (column datetime rows) \<longrightarrow> sorted_wrt ts_lt (column datetime rows)) \<and>
         mset (map snd rows) =
           mset (map (\<lambda>c. coerce_row (parse_time (raw_datetime c), c)) kline)"
proof -
  let ?data = "map2 (\<lambda>r t. (fst r, (t, snd r))) (DataFrame kline)
                 (map (\<lambda>c. parse_time (raw_datetime c)) kline)"
  let ?sorted = "sort_values fst ?data"
  from process_dataframe_rows [OF assms]
  have rows: "rows = map (\<lambda>r. (fst r, coerce_row (snd r))) (reset_index ?sorted)" by simp
  have len: "length ?data = length kline" by (simp add: DataFrame_def)
  have idx: "map fst rows = [0..<length kline]"
    unfolding rows by (simp add: comp_def map_fst_reset_index DataFrame_def)
  have "column datetime rows = map (\<lambda>r. fst (snd r)) (reset_index ?sorted)"
    unfolding rows by (simp add: column_def coerce_row_def comp_def)
  also have "\<dots> = map fst (map snd (reset_index ?sorted))" by (simp add: comp_def)
  also have "\<dots> = map (\<lambda>r. fst (snd r)) ?sorted"
    by (simp add: map_snd_reset_index comp_def)
  finally have keys: "column datetime rows = map (\<lambda>r. fst (snd r)) ?sorted" .
  have srt: "sorted_wrt ts_le (column datetime rows)"
    unfolding keys by (rule sorted_keys_sort_values)
  have "map snd rows = map coerce_row (map snd (reset_index ?sorted))"
    unfolding rows by (simp add: comp_def)
  then have "mset (map snd rows) = image_mset (\<lambda>r. coerce_row (snd r)) (mset ?sorted)"
    by (simp add: map_snd_reset_index comp_def)
  also have "\<dots> = image_mset (\<lambda>r. coerce_row (snd r)) (mset ?data)"
    by (simp only: mset_sort_values)
  also have "\<dots> = mset (map (\<lambda>r. coerce_row (snd r)) ?data)"
    by (simp only: mset_map)
  also have "map (\<lambda>r. coerce_row (snd r)) ?data
             = map (\<lambda>c. coerce_row (parse_time (raw_datetime c), c)) kline"
    by (rule nth_equalityI) (simp_all add: DataFrame_def)
  finally have perm: "mset (map snd rows) =
           mset (map (\<lambda>c. coerce_row (parse_time (raw_datetime c), c)) kline)" .
  from idx srt perm strict_of_distinct [OF srt] show ?thesis by blast
qed

text \<open>
  A list with the same candle twice is accepted, and the timestamps of the result,
  \<open>3, 5, 5\<close>, are not strictly ascending.
\<close>

theorem normalizer_sorted_counterexample:
  "process_dataframe
     [\<lparr>raw_datetime = TimeValue 5, raw_open = Numeric 1, raw_high = Numeric 1,
        raw_low = Numeric 1, raw_close = Numeric 1, raw_vol = Numeric 1\<rparr>,
      \<lparr>raw_datetime = TimeValue 3, raw_open = Numeric 2, raw_high = Numeric 2,
        raw_low = Numeric 2, raw_close = Numeric 2, raw_vol = Numeric 2\<rparr>,
      \<lparr>raw_datetime = TimeValue 5, raw_open = Numeric 1, raw_high = Numeric 1,
        raw_low = Numeric 1, raw_close = Numeric 1, raw_vol = Numeric 1\<rparr>]
   = Inr (Table [(0, ohlcv 3 2 2 2 2 2), (1, ohlcv 5 1 1 1 1 1), (2, ohlcv 5 1 1 1 1 1)])
   \<and> \<not> sorted_wrt ts_lt
         (column datetime [(0::nat, ohlcv 3 2 2 2 2 2), (1, ohlcv 5 1 1 1 1 1), (2, ohlcv 5 1 1 1 1 1)])"
  by (simp add: process_dataframe_def DataFrame_def bind_def reset_index_def coerce_row_def
        ohlcv_def column_def Let_def)

theorem normalizer_sorted_witness:
  "process_dataframe
     [\<lparr>raw_datetime = TimeValue 5, raw_open = Numeric 1, raw_high = Numeric 1,
        raw_low = Numeric 1, raw_close = Numeric 1, raw_vol = NonNumeric\<rparr>,
      \<lparr>raw_datetime = TimeValue 3, raw_open = Numeric 2, raw_high = Numeric 2,
        raw_low = Numeric 2, raw_close = Numeric 2, raw_vol = Numeric 2\<rparr>]
   = Inr (Table [(0, ohlcv 3 2 2 2 2 2), (1, (ohlcv 5 1 1 1 1 0)\<lparr>vol := NaN\<rparr>)])
   \<and> map fst [(0::nat, ohlcv 3 2 2 2 2 2), (1, (ohlcv 5 1 1 1 1 0)\<lparr>vol := NaN\<rparr>)] = [0, 1]
   \<and> sorted_wrt ts_le
         (column datetime [(0::nat, ohlcv 3 2 2 2 2 2), (1, (ohlcv 5 1 1 1 1 0)\<lparr>vol := NaN\<rparr>)])
   \<and> distinct
         (column datetime [(0::nat, ohlcv 3 2 2 2 2 2), (1, (ohlcv 5 1 1 1 1 0)\<lparr>vol := NaN\<rparr>)])
   \<and> sorted_wrt ts_lt
         (column datetime [(0::nat, ohlcv 3 2 2 2 2 2), (1, (ohlcv 5 1 1 1 1 0)\<lparr>vol := NaN\<rparr>)])"
proof -
  let ?kline = "[\<lparr>raw_datetime = TimeValue 5, raw_open = Numeric 1, raw_high = Numeric 1,
        raw_low = Numeric 1, raw_close = Numeric 1, raw_vol = NonNumeric\<rparr>,
      \<lparr>raw_datetime = TimeValue 3, raw_open = Numeric 2, raw_high = Numeric 2,
        raw_low = Numeric 2, raw_close = Numeric 2, raw_vol = Numeric 2\<rparr>]"
  let ?rows = "[(0::nat, ohlcv 3 2 2 2 2 2), (1, (ohlcv 5 1 1 1 1 0)\<lparr>vol := NaN\<rparr>)]"
  have ev: "process_dataframe ?kline = Inr (Table ?rows)"
    by (simp add: process_dataframe_def DataFrame_def bind_def reset_index_def coerce_row_def
        ohlcv_def Let_def)
  have d: "distinct (column datetime ?rows)" by (simp add: column_def ohlcv_def)
  from normalizer_sorted [OF ev] d
  have "map fst ?rows = [0..<length ?kline]" "sorted_wrt ts_le (column datetime ?rows)"
    "sorted_wrt ts_lt (column datetime ?rows)"
    by blast+
  moreover have "[0..<length ?kline] = [0, 1]" by simp
  ultimately show ?thesis using ev d by simp
qed

section \<open>The batch skips an instrument without data\<close>

lemma bind_Inr [simp]: "bind (Inr x) f = f x"
  by (simp add: bind_def)

lemma bind_Inl [simp]: "bind (Inl e) f = Inl e"
  by (simp add: bind_def)

lemma iloc_last_Inr: "xs \<noteq> [] \<Longrightarrow> iloc_last xs = Inr (last xs)"
  by (simp add: iloc_last_def)

lemma iloc_first_Inr: "xs \<noteq> [] \<Longrightarrow> iloc_first xs = Inr (hd xs)"
  by (cases xs) (simp_all add: iloc_first_def)

lemma column_eq_Nil [simp]: "column f rows = [] \<longleftrightarrow> rows = []"
  by (simp add: column_def)

lemma length_column [simp]: "length (column f rows) = length rows"
  by (simp add: column_def)

lemma rolling_mean_eq_Nil [simp]: "rolling_mean p xs = [] \<longleftrightarrow> xs = []"
  by (simp add: rolling_mean_def rolling_def)

lemma calculate_macd_default:
  "\<exists>dif dea hist. calculate_macd (Table rows) 12 26 9 = Inr (dif, dea, hist)"
  by (simp add: ewm_span_def Let_def)

lemma calculate_dmi_Inr:
  "\<exists>plus_di minus_di adx. calculate_dmi (Table rows) p = Inr (plus_di, minus_di, adx)"
  by (simp add: Let_def split_def)

lemma analyze_single_asset_report:
  assumes "rows \<noteq> []"
  shows "\<exists>r. analyze_single_asset (Table rows) name = Inr (Some r)"
proof -
  obtain plus_di minus_di adx where dmi: "calculate_dmi (Table rows) 14 = Inr (plus_di, minus_di, adx)"
    using calculate_dmi_Inr by blast
  obtain dif dea hist where macd: "calculate_macd (Table rows) 12 26 9 = Inr (dif, dea, hist)"
    using calculate_macd_default by blast
  have l: "\<And>xs::fval list. xs \<noteq> [] \<Longrightarrow> iloc_last xs = Inr (last xs)"
    by (rule iloc_last_Inr)
  show ?thesis
    unfolding analyze_single_asset_def
    using assms
    by (simp add: dmi macd iloc_last_Inr iloc_first_Inr Let_def del: calculate_dmi.simps calculate_macd.simps)
qed

lemma keys_dict_set:
  "map fst (dict_set d k v) = (if k \<in> set (map fst d) then map fst d else map fst d @ [k])"
  by (induction d k v rule: dict_set.induct) (auto simp: rev_image_eqI)

lemma set_dict_set: "set (dict_set d k v) \<subseteq> insert (k, v) (set d)"
  by (induction d k v rule: dict_set.induct) auto

lemma analyze_loop_result:
  assumes "list_all (\<lambda>(k, r). analyze_single_asset (from_api fetch k) k = Inr (Some r)) results"
  shows "\<exists>res. analyze_loop fetch ids results = Inr res \<and>
     map fst res = fromkeys (map fst results) (filter (\<lambda>i. \<not> df_empty (from_api fetch i)) ids) \<and>
     list_all (\<lambda>(k, r). analyze_single_asset (from_api fetch k) k = Inr (Some r)) res"
  using assms
proof (induction ids arbitrary: results)
  case Nil
  then show ?case by simp
next
  case (Cons i ids)
  show ?case
  proof (cases "df_empty (from_api fetch i)")
    case True
    with Cons show ?thesis by (simp add: Let_def)
  next
    case False
    then obtain rows where d: "from_api fetch i = Table rows" and ne: "rows \<noteq> []"
      by (cases "from_api fetch i") auto
    from analyze_single_asset_report [OF ne] obtain r where
      r: "analyze_single_asset (from_api fetch i) i = Inr (Some r)"
      unfolding d by blast
    have inv: "list_all (\<lambda>(k, r). analyze_single_asset (from_api fetch k) k = Inr (Some r))
                 (dict_set results i r)"
      using Cons.prems r set_dict_set [of results i r] by (auto simp: list_all_iff)
    from Cons.IH [OF inv] obtain res where
      res: "analyze_loop fetch ids (dict_set results i r) = Inr res" and
      k: "map fst res = fromkeys (map fst (dict_set results i r))
                          (filter (\<lambda>i. \<not> df_empty (from_api fetch i)) ids)" and
      v: "list_all (\<lambda>(k, r). analyze_single_asset (from_api fetch k) k = Inr (Some r)) res"
      by blast
    have "analyze_loop fetch (i # ids) results = Inr res"
      using False r res by (simp add: Let_def)
    moreover have "map fst res = fromkeys (map fst results)
                     (filter (\<lambda>i. \<not> df_empty (from_api fetch i)) (i # ids))"
      using False k by (simp add: keys_dict_set)
    ultimately show ?thesis using v by blast
  qed
qed

lemma fromkeys_distinct:
  "distinct (ks @ xs) \<Longrightarrow> fromkeys ks xs = ks @ xs"
  by (induction xs arbitrary: ks) auto

text \<open>
  C5.  For every retrieval function and every list of instruments,
  \<^verbatim>\<open>analyze_all_assets\<close> returns a dictionary and does not raise.  Its keys are the
  instruments of the list whose frame is not empty, in the order of the list (each at
  its first occurrence); an instrument without data is skipped.  Each key is mapped to
  the report that \<^verbatim>\<open>_analyze_single_asset\<close> builds for its frame.
\<close>

theorem batch_skips_and_continues:
  "\<exists>results. analyze_all_assets fetch inst_ids = Inr results \<and>
     map fst results = fromkeys [] (filter (\<lambda>i. \<not> df_empty (from_api fetch i)) inst_ids) \<and>
     list_all (\<lambda>(k, r). analyze_single_asset (from_api fetch k) k = Inr (Some r)) results \<and>
     (distinct inst_ids \<longrightarrow>
        map fst results = filter (\<lambda>i. \<not> df_empty (from_api fetch i)) inst_ids)"
proof (cases "inst_ids = []")
  case True
  then show ?thesis by (simp add: analyze_all_assets_def)
next
  case False
  from analyze_loop_result [of fetch "[]" inst_ids] obtain res where
    res: "analyze_loop fetch inst_ids [] = Inr res" and
    k: "map fst res = fromkeys [] (filter (\<lambda>i. \<not> df_empty (from_api fetch i)) inst_ids)" and
    v: "list_all (\<lambda>(k, r). analyze_single_asset (from_api fetch k) k = Inr (Some r)) res"
    by auto
  have "map fst res = filter (\<lambda>i. \<not> df_empty (from_api fetch i)) inst_ids"
    if "distinct inst_ids"
    using that k fromkeys_distinct [of "[]" "filter (\<lambda>i. \<not> df_empty (from_api fetch i)) inst_ids"]
    by simp
  with False res k v show ?thesis by (auto simp: analyze_all_assets_def)
qed


theorem batch_skips_and_continues_witness:
  "distinct [''A'', ''B'']
   \<and> \<not> df_empty (from_api (\<lambda>i. if i = ''A'' then Some (Table [(0, ohlcv 1 1 2 1 1 1)]) else None) ''A'')
   \<and> df_empty (from_api (\<lambda>i. if i = ''A'' then Some (Table [(0, ohlcv 1 1 2 1 1 1)]) else None) ''B'')
   \<and> (\<exists>results.
         analyze_all_assets (\<lambda>i. if i = ''A'' then Some (Table [(0, ohlcv 1 1 2 1 1 1)]) else None)
           [''A'', ''B''] = Inr results
         \<and> map fst results = [''A''])"
proof -
  let ?fetch = "\<lambda>i. if i = ''A'' then Some (Table [(0::nat, ohlcv 1 1 2 1 1 1)]) else None"
  have d: "distinct [''A'', ''B'']" by simp
  have a: "\<not> df_empty (from_api ?fetch ''A'')" by (simp add: from_api_def)
  have b: "df_empty (from_api ?fetch ''B'')" by (simp add: from_api_def)
  from batch_skips_and_continues [of ?fetch "[''A'', ''B'']"] d obtain results where
    res: "analyze_all_assets ?fetch [''A'', ''B''] = Inr results" and
    k: "map fst results = filter (\<lambda>i. \<not> df_empty (from_api ?fetch i)) [''A'', ''B'']"
    by blast
  from k a b have k': "map fst results = [''A'']" by simp
  have e: "\<exists>results. analyze_all_assets ?fetch [''A'', ''B''] = Inr results
             \<and> map fst results = [''A'']"
    using res k' by (intro exI [of _ results] conjI)
  from d a b e show ?thesis by (intro conjI)
qed

section \<open>Directional movement\<close>

lemma shift_nth: "0 < i \<Longrightarrow> i < length xs \<Longrightarrow> shift xs ! i = xs ! (i - 1)"
  by (cases i) (auto simp: shift_def nth_butlast)

lemma shift_0: "0 < length xs \<Longrightarrow> shift xs ! 0 = NaN"
  by (simp add: shift_def)

lemma diff_nth: "0 < i \<Longrightarrow> i < length xs \<Longrightarrow> diff xs ! i = fsub (xs ! i) (xs ! (i - 1))"
  by (simp add: diff_def shift_nth)

lemma diff_0: "0 < length xs \<Longrightarrow> diff xs ! 0 = NaN"
  by (simp add: diff_def shift_0)

lemma mask_set_nth:
  "i < length xs \<Longrightarrow> i < length m \<Longrightarrow> mask_set xs m v ! i = (if m ! i then v else xs ! i)"
  by (simp add: mask_set_def)

lemma length_mask_set [simp]: "length (mask_set xs m v) = min (length xs) (length m)"
  by (simp add: mask_set_def)

lemma directional_movement_pointwise:
  assumes len: "length highs = length lows"
  shows "directional_movement highs lows =
           (map2 (\<lambda>dh dl. fst (dm_point dh dl)) (diff highs) (diff lows),
            map2 (\<lambda>dh dl. snd (dm_point dh dl)) (diff highs) (diff lows))"
proof -
  let ?p1 = "diff highs" and ?m1 = "map fneg (diff lows)"
  let ?p2 = "mask_set ?p1 (map (\<lambda>x. flt x (Fin 0)) ?p1) (Fin 0)"
  let ?m2 = "mask_set ?m1 (map (\<lambda>x. flt x (Fin 0)) ?m1) (Fin 0)"
  let ?p3 = "mask_set ?p2 (map2 fle ?p2 ?m2) (Fin 0)"
  let ?m3 = "mask_set ?m2 (map2 fle ?m2 ?p3) (Fin 0)"
  have dm: "directional_movement highs lows = (?p3, ?m3)"
    by (simp add: directional_movement_def Let_def)
  have p2: "?p2 ! i = (if flt (?p1 ! i) (Fin 0) then Fin 0 else ?p1 ! i)" if "i < length highs" for i
    using that by (simp add: mask_set_nth)
  have m2: "?m2 ! i = (if flt (fneg (diff lows ! i)) (Fin 0) then Fin 0 else fneg (diff lows ! i))"
    if "i < length highs" for i
    using that len by (simp add: mask_set_nth)
  have l2: "length ?p2 = length highs" "length ?m2 = length highs" using len by simp_all
  have p3: "?p3 ! i = (if fle (?p2 ! i) (?m2 ! i) then Fin 0 else ?p2 ! i)" if "i < length highs" for i
    using that l2 by (simp add: mask_set_nth)
  have l3: "length ?p3 = length highs" using l2 by simp
  have m3: "?m3 ! i = (if fle (?m2 ! i) (?p3 ! i) then Fin 0 else ?m2 ! i)" if "i < length highs" for i
    using that l2 l3 by (simp add: mask_set_nth)
  have lm3: "length ?m3 = length highs" using l2 l3 by simp
  have P: "?p3 = map2 (\<lambda>dh dl. fst (dm_point dh dl)) (diff highs) (diff lows)"
  proof (rule nth_equalityI)
    show "length ?p3 = length (map2 (\<lambda>dh dl. fst (dm_point dh dl)) (diff highs) (diff lows))"
      using l3 len by simp
  next
    fix i assume "i < length ?p3"
    then have i: "i < length highs" using l3 by simp
    then show "?p3 ! i = map2 (\<lambda>dh dl. fst (dm_point dh dl)) (diff highs) (diff lows) ! i"
      using len by (simp only: p3 [OF i] p2 [OF i] m2 [OF i]) (simp add: dm_point_def Let_def)
  qed
  have M: "?m3 = map2 (\<lambda>dh dl. snd (dm_point dh dl)) (diff highs) (diff lows)"
  proof (rule nth_equalityI)
    show "length ?m3 = length (map2 (\<lambda>dh dl. snd (dm_point dh dl)) (diff highs) (diff lows))"
      using lm3 len by simp
  next
    fix i assume "i < length ?m3"
    then have i: "i < length highs" using lm3 by simp
    then show "?m3 ! i = map2 (\<lambda>dh dl. snd (dm_point dh dl)) (diff highs) (diff lows) ! i"
      using len by (simp only: m3 [OF i] p3 [OF i] p2 [OF i] m2 [OF i]) (simp add: dm_point_def Let_def)
  qed
  show ?thesis unfolding dm by (subst M, subst P, rule refl)
qed

lemma dm_point_NaN [simp]: "dm_point NaN dl = (NaN, if dl = NaN then NaN else if flt (fneg dl) (Fin 0) then Fin 0 else fneg dl)"
  by (cases dl) (auto simp: dm_point_def fle_def)

lemma dm_point_Fin:
  "dm_point (Fin u) (Fin (- d)) =
     (Fin (if max u 0 \<le> max d 0 then 0 else u), Fin (if max u 0 \<le> max d 0 then max d 0 else 0))"
  by (auto simp: dm_point_def fle_def Let_def)


lemma length_directional_movement:
  "length highs = length lows \<Longrightarrow>
   length (fst (directional_movement highs lows)) = length highs \<and>
   length (snd (directional_movement highs lows)) = length highs"
  by (simp add: directional_movement_pointwise)

lemma directional_movement_0:
  assumes "length highs = length lows" "0 < length highs"
  shows "fst (directional_movement highs lows) ! 0 = NaN"
    and "snd (directional_movement highs lows) ! 0 = NaN"
  using assms by (simp_all add: directional_movement_pointwise diff_0)

text \<open>
  What the four assignments compute at a position with finite highs and lows: with
  \<open>up\<close> the rise of the high and \<open>down\<close> the fall of the low, \<open>-DM\<close> is
  \<open>max down 0\<close> also when the two moves are equal; only \<open>+DM\<close> has to be strictly
  the larger one.
\<close>

lemma directional_movement_nth:
  assumes len: "length highs = length lows" and i: "0 < i" "i < length highs"
    and h: "highs ! i = Fin a" "highs ! (i - 1) = Fin a'"
    and l: "lows ! i = Fin b" "lows ! (i - 1) = Fin b'"
  shows "fst (directional_movement highs lows) ! i =
           Fin (if max (a - a') 0 \<le> max (b' - b) 0 then 0 else a - a')"
    and "snd (directional_movement highs lows) ! i =
           Fin (if max (a - a') 0 \<le> max (b' - b) 0 then max (b' - b) 0 else 0)"
proof -
  have dh: "diff highs ! i = Fin (a - a')" using i h by (simp add: diff_nth fsub_def)
  have "diff lows ! i = Fin (b - b')" using i l len by (simp add: diff_nth fsub_def)
  then have dl: "diff lows ! i = Fin (- (b' - b))" by simp
  have "dm_point (diff highs ! i) (diff lows ! i) =
     (Fin (if max (a - a') 0 \<le> max (b' - b) 0 then 0 else a - a'),
      Fin (if max (a - a') 0 \<le> max (b' - b) 0 then max (b' - b) 0 else 0))"
    unfolding dh dl by (rule dm_point_Fin)
  then show "fst (directional_movement highs lows) ! i =
           Fin (if max (a - a') 0 \<le> max (b' - b) 0 then 0 else a - a')"
    and "snd (directional_movement highs lows) ! i =
           Fin (if max (a - a') 0 \<le> max (b' - b) 0 then max (b' - b) 0 else 0)"
    using i len by (simp_all add: directional_movement_pointwise)
qed

text \<open>
  C1.  The claim fails on the code at a tie.  The high rises by 2 and the low falls by
  2: \<open>+DM\<close> is set to zero, but \<open>-DM\<close> stays 2, because the last assignment compares
  with the \<open>+DM\<close> that has just been set to zero.  With period 1 the move reaches
  \<open>-DI\<close>, which is \<open>100 / 3\<close> and not zero.
\<close>

theorem dmi_tie_break_evaluation:
  "directional_movement [Fin 10, Fin 12] [Fin 8, Fin 6] = ([NaN, Fin 0], [NaN, Fin 2])
   \<and> calculate_dmi (Table [(0, ohlcv 1 9 10 8 9 1), (1, ohlcv 2 9 12 6 9 1)]) 1
       = Inr ([NaN, Fin 0], [NaN, Fin (100 / 3)], [NaN, Fin 100])"
  by code_simp

section \<open>The snapshot reads the last position\<close>

lemma nth_in_window:
  assumes "j \<le> i" "i < length xs" "i < j + p"
  shows "xs ! j \<in> set (window p i xs)"
proof -
  let ?k = "j - (Suc i - p)"
  have k: "Suc i - p + ?k = j" using assms by simp
  have "?k < length (window p i xs)" using assms by (simp add: window_def)
  then have "window p i xs ! ?k \<in> set (window p i xs)" by (rule nth_mem)
  moreover have "window p i xs ! ?k = xs ! j"
    using assms k by (simp add: window_def)
  ultimately show ?thesis by simp
qed

lemma rolling_NaN_in_window:
  assumes "j \<le> i" "i < length xs" "i < j + p" "xs ! j = NaN"
  shows "rolling p agg xs ! i = NaN"
proof -
  have "NaN \<in> set (window p i xs)" using nth_in_window [OF assms(1-3)] assms(4) by simp
  then have "\<not> full_window p (window p i xs)" by (simp add: full_window_def)
  with assms(2) show ?thesis by (simp add: rolling_nth)
qed

text \<open>A series that is missing on its first \<open>k\<close> positions has a rolling aggregate that is missing on the first \<open>k + p - 1\<close>.\<close>

lemma rolling_delay:
  assumes miss: "\<And>j. j < k \<Longrightarrow> j < length xs \<Longrightarrow> xs ! j = NaN"
    and i: "i < length xs" "Suc i < k + p"
  shows "rolling p agg xs ! i = NaN"
proof (cases "Suc i < p \<or> p = 0")
  case True
  then show ?thesis
  proof
    assume "Suc i < p"
    with i show ?thesis by (simp add: rolling_before)
  next
    assume "p = 0"
    with i show ?thesis by (simp add: rolling_nth full_window_def)
  qed
next
  case False
  let ?j = "Suc i - p"
  have a: "?j \<le> i" using False by arith
  have b: "i < ?j + p" using False by arith
  have c: "?j < k" using False i by arith
  have d: "?j < length xs" using a i by arith
  from miss [OF c d] show ?thesis by (intro rolling_NaN_in_window [OF a i(1) b])
qed

lemma fmul_NaN [simp]: "fmul a NaN = NaN"
  by (cases a) simp_all

lemma fdiv_NaN [simp]: "fdiv a NaN = NaN"
  by (cases a) simp_all

lemma fadd_NaN [simp]: "fadd a NaN = NaN"
  by (cases a) simp_all

lemma calculate_dmi_adx_missing:
  assumes "calculate_dmi (Table rows) p = Inr (pdi, mdi, adx)"
  shows "length adx = length rows \<and> (\<forall>i<length rows. Suc i < 2 * p \<longrightarrow> adx ! i = NaN)"
proof -
  let ?h = "column high rows" and ?l = "column low rows" and ?c = "column close rows"
  define pdm where "pdm = fst (directional_movement ?h ?l)"
  define mdm where "mdm = snd (directional_movement ?h ?l)"
  define atr where "atr = rolling_mean p (true_range ?h ?l ?c)"
  define plus_di where "plus_di = map2 fdiv (map (fmul (Fin 100)) (rolling_mean p pdm)) atr"
  define minus_di where "minus_di = map2 fdiv (map (fmul (Fin 100)) (rolling_mean p mdm)) atr"
  define dx where "dx = map2 fdiv (map (fmul (Fin 100)) (map fabs (map2 fsub plus_di minus_di)))
                         (map2 fadd plus_di minus_di)"
  have n: "length ?h = length ?l" by (simp add: column_def)
  have lp: "length pdm = length rows" "length mdm = length rows"
    using length_directional_movement [OF n] by (simp_all add: pdm_def mdm_def column_def)
  have ltr: "length (true_range ?h ?l ?c) = length rows"
    by (simp add: true_range_def Let_def column_def)
  have latr: "length atr = length rows" by (simp add: atr_def rolling_mean_def ltr)
  have lpd: "length plus_di = length rows" "length minus_di = length rows"
    by (simp_all add: plus_di_def minus_di_def rolling_mean_def lp latr)
  have ldx: "length dx = length rows" by (simp add: dx_def lpd)
  have "calculate_dmi (Table rows) p = Inr (plus_di, minus_di, rolling_mean p dx)"
    unfolding pdm_def mdm_def atr_def plus_di_def minus_di_def dx_def
    by (simp only: calculate_dmi.simps Let_def split_def)
  with assms have adx: "adx = rolling_mean p dx" by simp
  have p0: "pdm ! j = NaN" if "j < 1" "j < length pdm" for j
  proof -
    from that lp have "0 < length ?h" "j = 0" by (simp_all add: column_def)
    with directional_movement_0(1) [OF n] show ?thesis by (simp add: pdm_def)
  qed
  have rp: "rolling_mean p pdm ! j = NaN" if "j < length rows" "j < p" for j
    unfolding rolling_mean_def using p0 that lp by (intro rolling_delay [of 1]) auto
  have pd: "plus_di ! j = NaN" if "j < length rows" "j < p" for j
    using that rp [OF that] lp latr by (simp add: plus_di_def rolling_mean_def)
  have dxn: "dx ! j = NaN" if "j < p" "j < length dx" for j
    using that pd [of j] lpd ldx by (simp add: dx_def)
  have "adx ! i = NaN" if "i < length rows" "Suc i < 2 * p" for i
    unfolding adx rolling_mean_def using dxn that ldx by (intro rolling_delay [of p]) auto
  then show ?thesis by (simp add: adx rolling_mean_def ldx)
qed

lemma rsi_of_before: "i < length closes \<Longrightarrow> Suc i < p \<Longrightarrow> rsi_of p closes ! i = NaN"
  by (simp add: rsi_of_nth rolling_mean_def rolling_before)


lemma length_ewm_loop [simp]: "length (ewm_loop \<alpha> w ow xs) = length xs"
  by (induction xs arbitrary: w ow) (simp_all add: Let_def)

lemma length_ewm_mean [simp]: "length (ewm_mean \<alpha> xs) = length xs"
  by (cases xs) simp_all

lemma analyze_single_asset_fields:
  assumes ne: "rows \<noteq> []"
    and dmi: "calculate_dmi (Table rows) 14 = Inr (pdi, mdi, adx)"
    and macd: "calculate_macd (Table rows) 12 26 9 = Inr (dif, dea, hist)"
  shows "\<exists>r. analyze_single_asset (Table rows) name = Inr (Some r) \<and>
           MA5 (indicators r) =
             (if 5 \<le> length rows then Some (last (rolling_mean 5 (column close rows))) else None) \<and>
           MA20 (indicators r) =
             (if 20 \<le> length rows then Some (last (rolling_mean 20 (column close rows))) else None) \<and>
           ADX (indicators r) = Some (last adx) \<and>
           RSI (indicators r) = Some (last (rsi_of 14 (column close rows))) \<and>
           MACD_DIF (indicators r) = Some (last dif)"
proof -
  have la: "adx \<noteq> []" using calculate_dmi_adx_missing [OF dmi] ne by auto
  have "length dif = length rows"
    using macd by (auto simp: ewm_span_def Let_def)
  then have ld: "dif \<noteq> []" using ne by auto
  have lr: "rsi_of 14 (column close rows) \<noteq> []"
    using ne by (metis length_rsi_of length_column length_0_conv)
  show ?thesis
    unfolding analyze_single_asset_def
    using ne la ld lr
    by (simp add: dmi macd iloc_last_Inr iloc_first_Inr Let_def
             del: calculate_dmi.simps calculate_macd.simps)
qed

text \<open>
  C6, as amended.  For a series with at least one candle \<^verbatim>\<open>_analyze_single_asset\<close>
  returns a report.  Each indicator entry of its snapshot is the value at the last
  position of the indicator's series: \<open>MA5\<close> and \<open>MA20\<close> when the series has at
  least 5 and 20 candles and \<^verbatim>\<open>None\<close> otherwise, \<open>ADX\<close>, \<open>RSI\<close> and \<open>MACD_DIF\<close>
  always.  The value at the last position may be the missing marker \<open>NaN\<close>; it is
  for \<open>RSI\<close> on fewer than 14 candles and for \<open>ADX\<close> on fewer than 28.
\<close>

theorem snapshot_last_position:
  assumes "rows \<noteq> []"
  shows "\<exists>r ma5 ma20 pdi mdi adx rsi dif dea hist.
      analyze_single_asset (Table rows) name = Inr (Some r) \<and>
      calculate_ma (Table rows) 5 = Inr ma5 \<and>
      calculate_ma (Table rows) 20 = Inr ma20 \<and>
      calculate_dmi (Table rows) 14 = Inr (pdi, mdi, adx) \<and>
      calculate_rsi (Table rows) 14 = Inr rsi \<and>
      calculate_macd (Table rows) 12 26 9 = Inr (dif, dea, hist) \<and>
      MA5 (indicators r) = (if 5 \<le> length rows then Some (last ma5) else None) \<and>
      MA20 (indicators r) = (if 20 \<le> length rows then Some (last ma20) else None) \<and>
      ADX (indicators r) = Some (last adx) \<and>
      RSI (indicators r) = Some (last rsi) \<and>
      MACD_DIF (indicators r) = Some (last dif) \<and>
      (length rows < 14 \<longrightarrow> RSI (indicators r) = Some NaN) \<and>
      (length rows < 28 \<longrightarrow> ADX (indicators r) = Some NaN)"
proof -
  let ?c = "column close rows"
  obtain pdi mdi adx where dmi: "calculate_dmi (Table rows) 14 = Inr (pdi, mdi, adx)"
    using calculate_dmi_Inr by blast
  obtain dif dea hist where macd: "calculate_macd (Table rows) 12 26 9 = Inr (dif, dea, hist)"
    using calculate_macd_default by blast
  from analyze_single_asset_fields [OF assms dmi macd, of name] obtain r where
    r: "analyze_single_asset (Table rows) name = Inr (Some r)" and
    f: "MA5 (indicators r) = (if 5 \<le> length rows then Some (last (rolling_mean 5 ?c)) else None)"
       "MA20 (indicators r) = (if 20 \<le> length rows then Some (last (rolling_mean 20 ?c)) else None)"
       "ADX (indicators r) = Some (last adx)"
       "RSI (indicators r) = Some (last (rsi_of 14 ?c))"
       "MACD_DIF (indicators r) = Some (last dif)"
    by blast
  from calculate_dmi_adx_missing [OF dmi] have
    la: "length adx = length rows" and
    ma: "\<And>i. i < length rows \<Longrightarrow> Suc i < 28 \<Longrightarrow> adx ! i = NaN"
    by auto
  have adx_short: "last adx = NaN" if "length rows < 28"
  proof -
    have "adx \<noteq> []" using la assms by auto
    then have "last adx = adx ! (length rows - 1)" using la by (simp add: last_conv_nth)
    also have "\<dots> = NaN" using that assms by (intro ma) auto
    finally show ?thesis .
  qed
  have rsi_short: "last (rsi_of 14 ?c) = NaN" if "length rows < 14"
  proof -
    have "rsi_of 14 ?c \<noteq> []"
      using assms by (metis length_rsi_of length_column length_0_conv)
    then have "last (rsi_of 14 ?c) = rsi_of 14 ?c ! (length rows - 1)"
      by (simp add: last_conv_nth)
    also have "\<dots> = NaN" using that assms by (intro rsi_of_before) auto
    finally show ?thesis .
  qed
  have "calculate_ma (Table rows) 5 = Inr (rolling_mean 5 ?c)"
       "calculate_ma (Table rows) 20 = Inr (rolling_mean 20 ?c)"
       "calculate_rsi (Table rows) 14 = Inr (rsi_of 14 ?c)"
    by simp_all
  with r dmi macd f adx_short rsi_short show ?thesis by (intro exI conjI impI) auto
qed



lemma column_flat_rows: "column close (flat_rows cs) = map Fin cs"
  by (rule nth_equalityI) (simp_all add: column_def flat_rows_def ohlcv_def)

text \<open>
  The snapshot does not look for the last defined position.  On sixteen candles with
  closes \<open>1, 2, 2, \<dots>, 2\<close> the index is 100 at positions 13 and 14 and missing at the
  last position, where the window is flat; the snapshot reports the missing marker.
\<close>

theorem snapshot_last_position_counterexample:
  "calculate_rsi (Table (flat_rows [1, 2, 2, 2, 2, 2, 2, 2, 2, 2, 2, 2, 2, 2, 2, 2])) 14
     = Inr [NaN, NaN, NaN, NaN, NaN, NaN, NaN, NaN, NaN, NaN, NaN, NaN, NaN, Fin 100, Fin 100, NaN]
   \<and> map_sum id (map_option (\<lambda>r. RSI (indicators r)))
        (analyze_single_asset (Table (flat_rows [1, 2, 2, 2, 2, 2, 2, 2, 2, 2, 2, 2, 2, 2, 2, 2])) ''X'')
     = Inr (Some (Some NaN))"
proof -
  let ?cs = "[1, 2, 2, 2, 2, 2, 2, 2, 2, 2, 2, 2, 2, 2, 2, 2 :: real]"
  have rsi: "rsi_of 14 (map Fin ?cs)
     = [NaN, NaN, NaN, NaN, NaN, NaN, NaN, NaN, NaN, NaN, NaN, NaN, NaN, Fin 100, Fin 100, NaN]"
    by code_simp
  have ne: "flat_rows ?cs \<noteq> []" by (simp add: flat_rows_def)
  obtain pdi mdi adx where dmi: "calculate_dmi (Table (flat_rows ?cs)) 14 = Inr (pdi, mdi, adx)"
    using calculate_dmi_Inr by blast
  obtain dif dea hist where
    macd: "calculate_macd (Table (flat_rows ?cs)) 12 26 9 = Inr (dif, dea, hist)"
    using calculate_macd_default by blast
  from analyze_single_asset_fields [OF ne dmi macd, of "''X''"] obtain r where
    r: "analyze_single_asset (Table (flat_rows ?cs)) ''X'' = Inr (Some r)" and
    f: "RSI (indicators r) = Some (last (rsi_of 14 (column close (flat_rows ?cs))))"
    by blast
  have "RSI (indicators r) = Some NaN"
    unfolding f column_flat_rows rsi by simp
  then have "map_sum id (map_option (\<lambda>r. RSI (indicators r)))
        (analyze_single_asset (Table (flat_rows ?cs)) ''X'') = Inr (Some (Some NaN))"
    unfolding r by simp
  moreover have "calculate_rsi (Table (flat_rows ?cs)) 14
     = Inr [NaN, NaN, NaN, NaN, NaN, NaN, NaN, NaN, NaN, NaN, NaN, NaN, NaN, Fin 100, Fin 100, NaN]"
    unfolding calculate_rsi.simps column_flat_rows rsi ..
  ultimately show ?thesis by (intro conjI)
qed


theorem snapshot_last_position_witness:
  "flat_rows [1, 2, 3] \<noteq> []
   \<and> (\<exists>r. analyze_single_asset (Table (flat_rows [1, 2, 3])) ''X'' = Inr (Some r)
         \<and> MA5 (indicators r) = None \<and> MA20 (indicators r) = None
         \<and> RSI (indicators r) = Some NaN \<and> ADX (indicators r) = Some NaN)"
proof -
  let ?rows = "flat_rows [1, 2, 3]"
  have ne: "?rows \<noteq> []" by (simp add: flat_rows_def)
  have len: "length ?rows = 3" by (simp add: flat_rows_def)
  from snapshot_last_position [OF ne, of "''X''"] obtain r ma5 ma20 where
    r: "analyze_single_asset (Table ?rows) ''X'' = Inr (Some r)" and
    a: "MA5 (indicators r) = (if 5 \<le> length ?rows then Some (last ma5) else None)" and
    b: "MA20 (indicators r) = (if 20 \<le> length ?rows then Some (last ma20) else None)" and
    c: "length ?rows < 14 \<longrightarrow> RSI (indicators r) = Some NaN" and
    d: "length ?rows < 28 \<longrightarrow> ADX (indicators r) = Some NaN"
    by blast
  from a b c d have "MA5 (indicators r) = None" "MA20 (indicators r) = None"
    "RSI (indicators r) = Some NaN" "ADX (indicators r) = Some NaN"
    unfolding len by simp_all
  with r have "\<exists>r. analyze_single_asset (Table ?rows) ''X'' = Inr (Some r)
         \<and> MA5 (indicators r) = None \<and> MA20 (indicators r) = None
         \<and> RSI (indicators r) = Some NaN \<and> ADX (indicators r) = Some NaN"
    by (intro exI [of _ r] conjI)
  with ne show ?thesis by (intro conjI)
qed

section \<open>Indicators on a short series\<close>

lemma all_missing_nth: "all_missing xs \<longleftrightarrow> (\<forall>i<length xs. xs ! i = NaN)"
  unfolding all_missing_def by (metis in_set_conv_nth)

lemma all_missing_rolling_short: "length xs < p \<Longrightarrow> all_missing (rolling p agg xs)"
  by (simp add: rolling_short all_missing_replicate)

lemma ewm_loop_missing: "all_missing xs \<Longrightarrow> ewm_loop \<alpha> NaN ow xs = xs"
  by (induction xs arbitrary: ow) (simp_all add: all_missing_def)

lemma ewm_mean_missing: "all_missing xs \<Longrightarrow> ewm_mean \<alpha> xs = xs"
  by (cases xs) (simp_all add: all_missing_def ewm_loop_missing)

lemma calculate_ema_length:
  "1 \<le> s \<Longrightarrow> \<exists>ema. calculate_ema (Table rows) s = Inr ema \<and> length ema = length rows"
  by (simp add: ewm_span_def)

lemma calculate_macd_length:
  assumes "1 \<le> fast" "1 \<le> slow" "1 \<le> signal"
  shows "\<exists>dif dea hist. calculate_macd (Table rows) fast slow signal = Inr (dif, dea, hist) \<and>
           length dif = length rows \<and> length dea = length rows \<and> length hist = length rows"
  using assms by (simp add: ewm_span_def Let_def)

lemma calculate_rsi_short:
  "\<exists>rsi. calculate_rsi (Table rows) p = Inr rsi \<and> length rsi = length rows \<and>
         (length rows < p \<longrightarrow> all_missing rsi)"
  by (simp add: all_missing_nth rsi_of_before)

lemma calculate_atr_short:
  "\<exists>atr. calculate_atr (Table rows) p = Inr atr \<and> length atr = length rows \<and>
         (length rows < p \<longrightarrow> all_missing atr)"
  by (simp add: rolling_mean_def true_range_def Let_def all_missing_rolling_short)

lemma length_kdj_rsv:
  "length highs = n \<Longrightarrow> length lows = n \<Longrightarrow> length closes = n \<Longrightarrow>
   length (kdj_rsv p highs lows closes) = n"
  by (simp add: kdj_rsv_def Let_def rolling_min_def rolling_max_def)

lemma kdj_rsv_short:
  assumes "length highs = n" "length lows = n" "length closes = n" "n < p"
  shows "all_missing (kdj_rsv p highs lows closes)"
  unfolding all_missing_nth
proof (intro allI impI)
  fix i assume "i < length (kdj_rsv p highs lows closes)"
  then have i: "i < n" using length_kdj_rsv [OF assms(1-3)] by simp
  have "rolling_min p lows ! i = NaN"
    unfolding rolling_min_def using i assms by (intro rolling_before) auto
  then show "kdj_rsv p highs lows closes ! i = NaN"
    using i assms by (simp add: kdj_rsv_def Let_def rolling_min_def rolling_max_def)
qed

lemma calculate_kdj_short:
  assumes "1 \<le> m1" "1 \<le> m2"
  shows "\<exists>k d j. calculate_kdj (Table rows) n m1 m2 = Inr (k, d, j) \<and>
           length k = length rows \<and> length d = length rows \<and> length j = length rows \<and>
           (length rows < n \<longrightarrow> all_missing k \<and> all_missing d \<and> all_missing j)"
proof -
  let ?rsv = "kdj_rsv n (column high rows) (column low rows) (column close rows)"
  let ?k = "ewm_mean (1 / (1 + real_of_int (int m1 - 1))) ?rsv"
  let ?d = "ewm_mean (1 / (1 + real_of_int (int m2 - 1))) ?k"
  let ?j = "map2 (\<lambda>a b. fsub (fmul (Fin 3) a) (fmul (Fin 2) b)) ?k ?d"
  have res: "calculate_kdj (Table rows) n m1 m2 = Inr (?k, ?d, ?j)"
    using assms by (simp add: ewm_com_def Let_def)
  have lr: "length ?rsv = length rows" by (intro length_kdj_rsv) simp_all
  have l: "length ?k = length rows" "length ?d = length rows" "length ?j = length rows"
    using lr by simp_all
  have short: "all_missing ?k \<and> all_missing ?d \<and> all_missing ?j" if "length rows < n"
  proof -
    have r: "all_missing ?rsv" using that by (intro kdj_rsv_short [of _ "length rows"]) simp_all
    then have k: "?k = ?rsv" by (rule ewm_mean_missing)
    with r have d: "?d = ?rsv" by (simp add: ewm_mean_missing)
    have "all_missing ?j"
      unfolding k d using r by (simp add: all_missing_nth)
    with r k d show ?thesis by simp
  qed
  from res l short show ?thesis by blast
qed

lemma calculate_dmi_short:
  "\<exists>plus_di minus_di adx. calculate_dmi (Table rows) p = Inr (plus_di, minus_di, adx) \<and>
     length plus_di = length rows \<and> length minus_di = length rows \<and> length adx = length rows \<and>
     (length rows \<le> p \<longrightarrow> all_missing plus_di \<and> all_missing minus_di \<and> all_missing adx)"
proof -
  let ?h = "column high rows" and ?l = "column low rows" and ?c = "column close rows"
  define pdm where "pdm = fst (directional_movement ?h ?l)"
  define mdm where "mdm = snd (directional_movement ?h ?l)"
  define atr where "atr = rolling_mean p (true_range ?h ?l ?c)"
  define plus_di where "plus_di = map2 fdiv (map (fmul (Fin 100)) (rolling_mean p pdm)) atr"
  define minus_di where "minus_di = map2 fdiv (map (fmul (Fin 100)) (rolling_mean p mdm)) atr"
  define dx where "dx = map2 fdiv (map (fmul (Fin 100)) (map fabs (map2 fsub plus_di minus_di)))
                         (map2 fadd plus_di minus_di)"
  have res: "calculate_dmi (Table rows) p = Inr (plus_di, minus_di, rolling_mean p dx)"
    unfolding pdm_def mdm_def atr_def plus_di_def minus_di_def dx_def
    by (simp only: calculate_dmi.simps Let_def split_def)
  have n: "length ?h = length ?l" by simp
  have lp: "length pdm = length rows" "length mdm = length rows"
    using length_directional_movement [OF n] by (simp_all add: pdm_def mdm_def)
  have latr: "length atr = length rows"
    by (simp add: atr_def true_range_def Let_def)
  have lpd: "length plus_di = length rows" "length minus_di = length rows"
    by (simp_all add: plus_di_def minus_di_def lp latr)
  have ldx: "length dx = length rows" by (simp add: dx_def lpd)
  have m0: "mdm ! j = NaN" if "j < 1" "j < length mdm" for j
  proof -
    from that lp have "0 < length ?h" "j = 0" by simp_all
    with directional_movement_0(2) [OF n] show ?thesis by (simp add: mdm_def)
  qed
  have p0: "pdm ! j = NaN" if "j < 1" "j < length pdm" for j
  proof -
    from that lp have "0 < length ?h" "j = 0" by simp_all
    with directional_movement_0(1) [OF n] show ?thesis by (simp add: pdm_def)
  qed
  have rp: "rolling_mean p pdm ! j = NaN" if "j < length rows" "j < p" for j
    unfolding rolling_mean_def using p0 that lp by (intro rolling_delay [of 1]) auto
  have rm: "rolling_mean p mdm ! j = NaN" if "j < length rows" "j < p" for j
    unfolding rolling_mean_def using m0 that lp by (intro rolling_delay [of 1]) auto
  have pd: "plus_di ! j = NaN" if "j < length rows" "j < p" for j
    using that rp [OF that] lp latr by (simp add: plus_di_def)
  have md: "minus_di ! j = NaN" if "j < length rows" "j < p" for j
    using that rm [OF that] lp latr by (simp add: minus_di_def)
  have dxn: "dx ! j = NaN" if "j < p" "j < length dx" for j
    using that pd [of j] lpd ldx by (simp add: dx_def)
  have adx: "rolling_mean p dx ! i = NaN" if "i < length rows" "Suc i < 2 * p" for i
    unfolding rolling_mean_def using dxn that ldx by (intro rolling_delay [of p]) auto
  have "all_missing plus_di \<and> all_missing minus_di \<and> all_missing (rolling_mean p dx)"
    if "length rows \<le> p"
    unfolding all_missing_nth using that pd md adx lpd ldx by auto
  with res lpd ldx show ?thesis by auto
qed

lemma calculate_bollinger_bands_length:
  "\<exists>upper middle lower. calculate_bollinger_bands (Table rows) p k = Inr (upper, middle, lower) \<and>
     length upper = length rows \<and> length middle = length rows \<and> length lower = length rows \<and>
     (length rows < p \<longrightarrow> all_missing upper \<and> all_missing middle \<and> all_missing lower)"
proof -
  let ?c = "column close rows"
  let ?m = "rolling_mean p ?c" and ?s = "map (\<lambda>x. fmul x (Fin (real_of_int k))) (rolling_std p ?c)"
  have res: "calculate_bollinger_bands (Table rows) p k = Inr (map2 fadd ?m ?s, ?m, map2 fsub ?m ?s)"
    by (simp add: Let_def)
  have l: "length (map2 fadd ?m ?s) = length rows" "length ?m = length rows"
    "length (map2 fsub ?m ?s) = length rows"
    by (simp_all add: rolling_std_def)
  have "all_missing (map2 fadd ?m ?s) \<and> all_missing ?m \<and> all_missing (map2 fsub ?m ?s)"
    if "length rows < p"
  proof -
    have "?m = replicate (length rows) NaN"
      using that by (simp add: rolling_mean_def rolling_short)
    then show ?thesis by (simp add: all_missing_nth rolling_std_def)
  qed
  with res l show ?thesis by blast
qed


lemma calculate_ma_short:
  "\<exists>ma. calculate_ma (Table rows) p = Inr ma \<and> length ma = length rows \<and>
        (length rows < p \<longrightarrow> all_missing ma)"
  by (simp add: rolling_mean_def all_missing_rolling_short)

lemma calculate_obv_length:
  "rows \<noteq> [] \<Longrightarrow> \<exists>obv. calculate_obv (Table rows) = Inr obv \<and> length obv = length rows"
  using calculate_obv_with_rows [of rows fadd fsub] unfolding calculate_obv_def by blast

text \<open>
  C2, as amended.  On every table with its columns the series-valued indicator
  functions return series of the length of the input and do not raise, given a span
  of at least 1 for \<^verbatim>\<open>calculate_ema\<close> and \<^verbatim>\<open>calculate_macd\<close>, smoothing parameters of at
  least 1 for \<^verbatim>\<open>calculate_kdj\<close>, and at least one candle for \<^verbatim>\<open>calculate_obv\<close>.  The
  result is missing at every position when the series is shorter than the window:
  fewer than \<open>p\<close> candles for the moving average, the relative strength index, the
  Bollinger bands and the average true range, fewer than \<open>n\<close> for KDJ, at most \<open>p\<close>
  for the three series of DMI.
\<close>

theorem indicators_short_series:
  "(\<exists>ma. calculate_ma (Table rows) p = Inr ma \<and> length ma = length rows \<and>
         (length rows < p \<longrightarrow> all_missing ma))
   \<and> (1 \<le> p \<longrightarrow> (\<exists>ema. calculate_ema (Table rows) p = Inr ema \<and> length ema = length rows))
   \<and> (\<exists>rsi. calculate_rsi (Table rows) p = Inr rsi \<and> length rsi = length rows \<and>
         (length rows < p \<longrightarrow> all_missing rsi))
   \<and> (1 \<le> fast \<and> 1 \<le> slow \<and> 1 \<le> signal \<longrightarrow>
        (\<exists>dif dea hist. calculate_macd (Table rows) fast slow signal = Inr (dif, dea, hist) \<and>
           length dif = length rows \<and> length dea = length rows \<and> length hist = length rows))
   \<and> (1 \<le> m1 \<and> 1 \<le> m2 \<longrightarrow>
        (\<exists>k d j. calculate_kdj (Table rows) n m1 m2 = Inr (k, d, j) \<and>
           length k = length rows \<and> length d = length rows \<and> length j = length rows \<and>
           (length rows < n \<longrightarrow> all_missing k \<and> all_missing d \<and> all_missing j)))
   \<and> (\<exists>plus_di minus_di adx. calculate_dmi (Table rows) p = Inr (plus_di, minus_di, adx) \<and>
         length plus_di = length rows \<and> length minus_di = length rows \<and> length adx = length rows \<and>
         (length rows \<le> p \<longrightarrow> all_missing plus_di \<and> all_missing minus_di \<and> all_missing adx))
   \<and> (\<exists>upper middle lower.
         calculate_bollinger_bands (Table rows) p std_dev = Inr (upper, middle, lower) \<and>
         length upper = length rows \<and> length middle = length rows \<and> length lower = length rows \<and>
         (length rows < p \<longrightarrow> all_missing upper \<and> all_missing middle \<and> all_missing lower))
   \<and> (\<exists>atr. calculate_atr (Table rows) p = Inr atr \<and> length atr = length rows \<and>
         (length rows < p \<longrightarrow> all_missing atr))
   \<and> (rows \<noteq> [] \<longrightarrow> (\<exists>obv. calculate_obv (Table rows) = Inr obv \<and> length obv = length rows))"
  using calculate_ma_short [of rows p] calculate_ema_length [of p rows]
    calculate_rsi_short [of rows p] calculate_macd_length [of fast slow signal rows]
    calculate_kdj_short [of m1 m2 rows n] calculate_dmi_short [of rows p]
    calculate_bollinger_bands_length [of rows p std_dev] calculate_atr_short [of rows p]
    calculate_obv_length [of rows]
  by (intro conjI impI) blast+

text \<open>
  The empty series is not covered by the indicator functions themselves.  On a table
  without rows \<^verbatim>\<open>calculate_obv\<close> raises \<^verbatim>\<open>IndexError\<close>.  An empty input list and a
  failed retrieval both leave the frame without columns, on which every indicator
  function raises \<^verbatim>\<open>KeyError\<close>.
\<close>

theorem indicators_short_series_counterexample:
  "calculate_obv (Table []) = Inl IndexError
   \<and> process_dataframe [] = Inr NoColumns
   \<and> from_api (\<lambda>i. None) ''BTC-USDT'' = NoColumns
   \<and> calculate_rsi NoColumns 14 = Inl KeyError
   \<and> calculate_ma NoColumns 5 = Inl KeyError
   \<and> calculate_obv NoColumns = Inl KeyError"
  by (simp add: iloc_first_def column_def process_dataframe_def DataFrame_def from_api_def)

text \<open>
  Three candles and the default parameters; among others, the relative strength
  index with period 14 is a series of three missing values.
\<close>

theorem indicators_short_series_witness:
  "flat_rows [1, 2, 3] \<noteq> [] \<and> length (flat_rows [1, 2, 3]) = 3
   \<and> (\<exists>ma. calculate_ma (Table (flat_rows [1, 2, 3])) 14 = Inr ma \<and> length ma = 3 \<and> all_missing ma)
   \<and> (\<exists>ema. calculate_ema (Table (flat_rows [1, 2, 3])) 14 = Inr ema \<and> length ema = 3)
   \<and> (\<exists>rsi. calculate_rsi (Table (flat_rows [1, 2, 3])) 14 = Inr rsi \<and> length rsi = 3 \<and> all_missing rsi)
   \<and> (\<exists>dif dea hist. calculate_macd (Table (flat_rows [1, 2, 3])) 12 26 9 = Inr (dif, dea, hist)
         \<and> length dif = 3)
   \<and> (\<exists>k d j. calculate_kdj (Table (flat_rows [1, 2, 3])) 9 3 3 = Inr (k, d, j)
         \<and> length k = 3 \<and> all_missing k \<and> all_missing d \<and> all_missing j)
   \<and> (\<exists>plus_di minus_di adx. calculate_dmi (Table (flat_rows [1, 2, 3])) 14 = Inr (plus_di, minus_di, adx)
         \<and> length adx = 3 \<and> all_missing plus_di \<and> all_missing minus_di \<and> all_missing adx)
   \<and> (\<exists>upper middle lower.
         calculate_bollinger_bands (Table (flat_rows [1, 2, 3])) 14 2 = Inr (upper, middle, lower)
         \<and> length upper = 3 \<and> all_missing upper \<and> all_missing middle \<and> all_missing lower)
   \<and> (\<exists>atr. calculate_atr (Table (flat_rows [1, 2, 3])) 14 = Inr atr \<and> length atr = 3 \<and> all_missing atr)
   \<and> (\<exists>obv. calculate_obv (Table (flat_rows [1, 2, 3])) = Inr obv \<and> length obv = 3)"
proof -
  let ?rows = "flat_rows [1, 2, 3]"
  have ne: "?rows \<noteq> []" by (simp add: flat_rows_def)
  have len: "length ?rows = 3" by (simp add: flat_rows_def)
  have h: "length ?rows < 14" "length ?rows \<le> 14" "length ?rows < 9" "(1::nat) \<le> 14"
    "(1::nat) \<le> 12 \<and> (1::nat) \<le> 26 \<and> (1::nat) \<le> 9" "(1::nat) \<le> 3 \<and> (1::nat) \<le> 3"
    by (simp_all add: len)
  note t = indicators_short_series [of ?rows 14 12 26 9 3 3 9 2]
  from t h ne show ?thesis unfolding len by (intro conjI) blast+
qed

end
